theory Spec2Isabelle
  imports Complex_Main
begin

section \<open>Data quality and trust scoring: the function \<open>quality_checks\<close> of \<open>src/quality.py\<close>\<close>

text \<open>
  The development follows \<open>quality_checks\<close> line by line. Conventions of the embedding:
  \<^item> a timestamp is an \<open>int\<close>, nanoseconds since the epoch (UTC); a timestamp floored to
    the day is represented by its day number, so that consecutive calendar days are
    consecutive integers;
  \<^item> a float64 value is a \<open>real\<close>; where the program can hold NaN the type is
    \<open>real option\<close> and \<open>None\<close> is NaN. Rounding of float64 arithmetic is not modelled,
    except in the z-score of the volume dimension, where it decides a comparison with 2.8
    and the float64 operations are a parameter of the model;
  \<^item> a pandas Series indexed by date is an association list in index order;
  \<^item> an exception is a value \<open>Inl e\<close> of a sum type.
\<close>

subsection \<open>Events\<close>

record event =
  user_id :: int
  event_ts :: int
  event_name :: string
  amount :: "real option"

definition ns_per_day :: int where
  "ns_per_day = 86400000000000"

text \<open>\<open>df["date"] = df["event_ts"].dt.floor("D")\<close>, as a day number.\<close>

definition date :: "event \<Rightarrow> int" where
  "date e = event_ts e div ns_per_day"

subsection \<open>Series\<close>

type_synonym 'a series = "(int \<times> 'a) list"

text \<open>\<open>rows.groupby("date").size()\<close>: one entry for every date that occurs in \<open>rows\<close>,
  in ascending order of date, with the number of rows of that date.\<close>

definition groupby_size :: "event list \<Rightarrow> nat series" where
  "groupby_size rows =
     map (\<lambda>d. (d, length (filter (\<lambda>e. date e = d) rows))) (sort (remdups (map date rows)))"

text \<open>\<open>fillna(0)\<close> on one value.\<close>

definition fillna0 :: "real option \<Rightarrow> real" where
  "fillna0 x = (case x of None \<Rightarrow> 0 | Some v \<Rightarrow> v)"

text \<open>Binary float operations: NaN in, NaN out.\<close>

definition nan_op :: "(real \<Rightarrow> real \<Rightarrow> real) \<Rightarrow> real option \<Rightarrow> real option \<Rightarrow> real option" where
  "nan_op f a b = (case a of None \<Rightarrow> None | Some x \<Rightarrow> (case b of None \<Rightarrow> None | Some y \<Rightarrow> Some (f x y)))"

text \<open>The median of a window: the middle element of the sorted values, the mean of the
  two middle elements when their number is even, NaN when there is none.\<close>

definition median :: "real list \<Rightarrow> real option" where
  "median xs =
     (let s = sort xs; n = length s in
      if n = 0 then None
      else if odd n then Some (s ! (n div 2))
      else Some ((s ! (n div 2 - 1) + s ! (n div 2)) / 2))"

text \<open>\<open>s.rolling(w, min_periods=1).median()\<close>: the window of an integer \<open>w\<close> is the
  last \<open>w\<close> entries of the series up to and including the current one.\<close>

definition rolling_median :: "nat \<Rightarrow> nat series \<Rightarrow> real option series" where
  "rolling_median w s =
     map (\<lambda>i. (fst (s ! i), median (map (real \<circ> snd) (drop (Suc i - w) (take (Suc i) s)))))
       [0..<length s]"

text \<open>Assigning a series to a column of \<open>q\<close> aligns it on the index of \<open>q\<close>: a date
  missing from the series gets NaN, which \<open>q.fillna(0)\<close> turns into 0.\<close>

definition column0 :: "('a::zero) series \<Rightarrow> int \<Rightarrow> 'a" where
  "column0 s d = (case map_of s d of None \<Rightarrow> 0 | Some v \<Rightarrow> v)"

subsection \<open>Completeness\<close>

definition purch :: "event list \<Rightarrow> event list" where
  "purch df = filter (\<lambda>e. event_name e \<in> set [''purchase'', ''in_app_purchase'']) df"

definition purchase_events :: "event list \<Rightarrow> nat series" where
  "purchase_events df = groupby_size (purch df)"

text \<open>\<open>.replace(0, np.nan)\<close> on one value.\<close>

definition replace0 :: "real option \<Rightarrow> real option" where
  "replace0 x = (case x of None \<Rightarrow> None | Some v \<Rightarrow> if v = 0 then None else Some v)"

definition baseline_purchase :: "event list \<Rightarrow> real option series" where
  "baseline_purchase df = map (\<lambda>(d, b). (d, replace0 b)) (rolling_median 7 (purchase_events df))"

text \<open>\<open>.clip(0, 1)\<close> on one value.\<close>

definition clip01 :: "real option \<Rightarrow> real option" where
  "clip01 x = map_option (\<lambda>v. min 1 (max 0 v)) x"

text \<open>\<open>(purchase_events / baseline_purchase).clip(0, 1).fillna(0)\<close>; both series have
  the same index, so the division is entry by entry.\<close>

definition score_completeness :: "event list \<Rightarrow> real series" where
  "score_completeness df =
     map (\<lambda>((d, p), (_, b)). (d, fillna0 (clip01 (nan_op (/) (Some (real p)) b))))
       (zip (purchase_events df) (baseline_purchase df))"

subsection \<open>Schema drift\<close>

text \<open>\<open>(rows.groupby("date").size() > 0).astype(int)\<close>, for the rows named \<open>purchase\<close> and
  for the rows named \<open>in_app_purchase\<close>.\<close>

definition has_purchase :: "event list \<Rightarrow> nat series" where
  "has_purchase df =
     map (\<lambda>(d, n). (d, if n > 0 then 1 else 0))
       (groupby_size (filter (\<lambda>e. event_name e = ''purchase'') df))"

definition has_iap :: "event list \<Rightarrow> nat series" where
  "has_iap df =
     map (\<lambda>(d, n). (d, if n > 0 then 1 else 0))
       (groupby_size (filter (\<lambda>e. event_name e = ''in_app_purchase'') df))"

text \<open>\<open>s == c\<close> on a series.\<close>

definition series_eq :: "nat series \<Rightarrow> nat \<Rightarrow> bool series" where
  "series_eq s c = map (\<lambda>(d, v). (d, v = c)) s"

text \<open>\<open>l & r\<close> on two boolean series: pandas aligns both on the sorted union of their
  indexes; an entry missing on either side is NaN there, and the result of the logical
  operation is \<open>False\<close> at every date where an operand is NaN.\<close>

definition series_and :: "bool series \<Rightarrow> bool series \<Rightarrow> bool series" where
  "series_and l r =
     map (\<lambda>d. (d, case map_of l d of None \<Rightarrow> False
                  | Some a \<Rightarrow> (case map_of r d of None \<Rightarrow> False | Some b \<Rightarrow> a \<and> b)))
       (sort (remdups (map fst l @ map fst r)))"

definition schema_drift_flag :: "event list \<Rightarrow> nat series" where
  "schema_drift_flag df =
     map (\<lambda>(d, b). (d, if b then 1 else 0))
       (series_and (series_eq (has_iap df) 1) (series_eq (has_purchase df) 0))"

definition score_schema :: "event list \<Rightarrow> real series" where
  "score_schema df = map (\<lambda>(d, f). (d, if f = 1 then 0.60 else 1.00)) (schema_drift_flag df)"

subsection \<open>Uniqueness\<close>

text \<open>\<open>df.duplicated(subset=["user_id", "event_ts", "event_name", "amount"], keep=False)\<close>:
  a row is marked when the table holds more than one row with its key; two missing
  amounts count as equal.\<close>

definition dup_key :: "event \<Rightarrow> int \<times> int \<times> string \<times> real option" where
  "dup_key e = (user_id e, event_ts e, event_name e, amount e)"

definition dup_mask :: "event list \<Rightarrow> event \<Rightarrow> bool" where
  "dup_mask df e = (1 < length (filter (\<lambda>e'. dup_key e' = dup_key e) df))"

definition dup_count :: "event list \<Rightarrow> nat series" where
  "dup_count df = groupby_size (filter (dup_mask df) df)"

definition dup_baseline :: "event list \<Rightarrow> real series" where
  "dup_baseline df = map (\<lambda>(d, b). (d, fillna0 b)) (rolling_median 7 (dup_count df))"

definition score_uniqueness :: "event list \<Rightarrow> real series" where
  "score_uniqueness df =
     map (\<lambda>((d, c), (_, b)). (d, exp (- (real c / (b + 1)))))
       (zip (dup_count df) (dup_baseline df))"

subsection \<open>Volume anomaly\<close>

definition sessions :: "event list \<Rightarrow> nat series" where
  "sessions df = groupby_size (filter (\<lambda>e. event_name e = ''session_start'') df)"

text \<open>Lines 30 and 31 run in float64, and the rounding of that arithmetic decides on which
  side of 2.8 a z-score falls. The four float64 operations of line 30 are therefore a
  parameter of the model: \<open>s.mean()\<close> and \<open>s.std(ddof=0)\<close> of the values of a series (NaN on
  an empty series), and the subtraction and the division of two numbers.\<close>

record float64_ops =
  f_mean :: "real list \<Rightarrow> real option"
  f_std0 :: "real list \<Rightarrow> real option"
  f_sub :: "real \<Rightarrow> real \<Rightarrow> real"
  f_div :: "real \<Rightarrow> real \<Rightarrow> real"

definition z_score :: "float64_ops \<Rightarrow> event list \<Rightarrow> real option series" where
  "z_score fo df =
     (let s = sessions df;
          vals = map (real \<circ> snd) s;
          sd = (if f_std0 fo vals \<noteq> Some 0 then f_std0 fo vals else Some 1.0)
      in map (\<lambda>(d, n). (d, nan_op (f_div fo) (nan_op (f_sub fo) (Some (real n)) (f_mean fo vals)) sd))
           s)"

text \<open>The constant \<open>2.8\<close> of line 31 is the double nearest to 2.8.\<close>

definition double_2_8 :: real where
  "double_2_8 = 3152519739159347 / 2 ^ 50"

text \<open>\<open>z.abs() > 2.8\<close>: a comparison with NaN is false.\<close>

definition volume_anomaly_flag :: "float64_ops \<Rightarrow> event list \<Rightarrow> nat series" where
  "volume_anomaly_flag fo df =
     map (\<lambda>(d, v). (d, if (case v of None \<Rightarrow> False | Some x \<Rightarrow> \<bar>x\<bar> > double_2_8) then 1 else 0))
       (z_score fo df)"

definition score_volume :: "float64_ops \<Rightarrow> event list \<Rightarrow> real series" where
  "score_volume fo df =
     map (\<lambda>(d, f). (d, if f = 1 then 0.55 else 1.00)) (volume_anomaly_flag fo df)"

subsection \<open>Validity\<close>

text \<open>\<open>neg_amount\<close> counts, per day, the purchase-type events whose amount, with a
  missing amount read as 0, is negative. In \<open>np.where(neg_amount.fillna(0) > 0, 0.0, 1.0)\<close>
  the \<open>fillna\<close> leaves the counts as they are.\<close>

definition neg_amount :: "event list \<Rightarrow> nat series" where
  "neg_amount df = groupby_size (filter (\<lambda>e. fillna0 (amount e) < 0) (purch df))"

definition score_validity :: "event list \<Rightarrow> real series" where
  "score_validity df = map (\<lambda>(d, n). (d, if real n > 0 then 0.0 else 1.0)) (neg_amount df)"

subsection \<open>The daily frame\<close>

datatype error = ValueError

text \<open>\<open>df["date"].min()\<close> and \<open>.max()\<close>: NaT, here \<open>None\<close>, on an empty column.\<close>

definition date_min :: "event list \<Rightarrow> int option" where
  "date_min df = (case map date df of [] \<Rightarrow> None | d # ds \<Rightarrow> Some (fold min ds d))"

definition date_max :: "event list \<Rightarrow> int option" where
  "date_max df = (case map date df of [] \<Rightarrow> None | d # ds \<Rightarrow> Some (fold max ds d))"

text \<open>\<open>pd.date_range(start, end, freq="D", tz="UTC")\<close>: every day from \<open>start\<close> to
  \<open>end\<close>; pandas raises \<open>ValueError\<close> when an end point is NaT.\<close>

definition date_range :: "int option \<Rightarrow> int option \<Rightarrow> error + int list" where
  "date_range start end =
     (case start of None \<Rightarrow> Inl ValueError
      | Some a \<Rightarrow> (case end of None \<Rightarrow> Inl ValueError | Some b \<Rightarrow> Inr [a..b]))"

record quality_row =
  q_date :: int
  q_purchase_events :: nat
  q_session_events :: nat
  q_duplicate_events :: nat
  q_schema_drift_flag :: nat
  q_volume_anomaly_flag :: nat
  q_neg_amount_events :: nat
  q_score_completeness :: real
  q_score_schema :: real
  q_score_uniqueness :: real
  q_score_volume :: real
  q_score_validity :: real
  q_trust_score :: real
  q_reason :: string

subsection \<open>Trust score and reason tags\<close>

definition trust_score :: "real \<Rightarrow> real \<Rightarrow> real \<Rightarrow> real \<Rightarrow> real \<Rightarrow> real" where
  "trust_score c s u v va = (0.30 * c + 0.20 * s + 0.20 * u + 0.15 * v + 0.15 * va) * 100"

text \<open>\<open>", ".join(tags)\<close>.\<close>

fun join :: "string \<Rightarrow> string list \<Rightarrow> string" where
  "join sep [] = []"
| "join sep [t] = t"
| "join sep (t # u # ts) = t @ sep @ join sep (u # ts)"

text \<open>The body of the loop over the rows of \<open>q\<close>: the tags are appended in this order.\<close>

definition tags :: "real \<Rightarrow> real \<Rightarrow> real \<Rightarrow> nat \<Rightarrow> real \<Rightarrow> string list" where
  "tags c s v dup va =
     (let t0 = [];
          t1 = (if c < 0.70 then t0 @ [''possible_purchase_outage''] else t0);
          t2 = (if s < 1.00 then t1 @ [''schema_drift_purchase_name''] else t1);
          t3 = (if v < 1.00 then t2 @ [''traffic_spike_possible_bots''] else t2);
          t4 = (if dup > 0 then t3 @ [''duplicates_detected''] else t3);
          t5 = (if va < 1.00 then t4 @ [''invalid_amount_values''] else t4)
      in t5)"

definition reason :: "string list \<Rightarrow> string" where
  "reason ts = (if ts \<noteq> [] then join '', '' ts else ''ok'')"

text \<open>One row of \<open>q\<close>: the columns after \<open>q.fillna(0)\<close>, then \<open>trust_score\<close> and
  \<open>reason\<close> computed from them.\<close>

definition q_row :: "float64_ops \<Rightarrow> event list \<Rightarrow> int \<Rightarrow> quality_row" where
  "q_row fo df d =
     (let c = column0 (score_completeness df) d;
          s = column0 (score_schema df) d;
          u = column0 (score_uniqueness df) d;
          v = column0 (score_volume fo df) d;
          va = column0 (score_validity df) d;
          dup = column0 (dup_count df) d
      in \<lparr> q_date = d,
           q_purchase_events = column0 (purchase_events df) d,
           q_session_events = column0 (sessions df) d,
           q_duplicate_events = dup,
           q_schema_drift_flag = column0 (schema_drift_flag df) d,
           q_volume_anomaly_flag = column0 (volume_anomaly_flag fo df) d,
           q_neg_amount_events = column0 (neg_amount df) d,
           q_score_completeness = c,
           q_score_schema = s,
           q_score_uniqueness = u,
           q_score_volume = v,
           q_score_validity = va,
           q_trust_score = trust_score c s u v va,
           q_reason = reason (tags c s v dup va) \<rparr>)"

definition quality_checks :: "float64_ops \<Rightarrow> event list \<Rightarrow> error + quality_row list" where
  "quality_checks fo df =
     (case date_range (date_min df) (date_max df) of
        Inl e \<Rightarrow> Inl e
      | Inr all_dates \<Rightarrow> Inr (map (q_row fo df) all_dates))"

text \<open>The four operations without rounding.\<close>

definition exact_ops :: float64_ops where
  "exact_ops =
     \<lparr> f_mean = (\<lambda>xs. if xs = [] then None else Some (sum_list xs / real (length xs))),
       f_std0 = (\<lambda>xs. if xs = [] then None
                 else Some (sqrt (sum_list (map (\<lambda>x. (x - sum_list xs / real (length xs))\<^sup>2) xs)
                                  / real (length xs)))),
       f_sub = (-),
       f_div = (/) \<rparr>"

subsection \<open>Sample inputs\<close>

text \<open>A purchase on day 0 and an \<open>in_app_purchase\<close> with a negative amount on day 2;
  day 1 has no event. The three rows are what \<open>quality_checks\<close> returns on it.\<close>

definition ex_gap :: "event list" where
  "ex_gap =
     [\<lparr> user_id = 1, event_ts = 0, event_name = ''purchase'', amount = Some 5 \<rparr>,
      \<lparr> user_id = 2, event_ts = 2 * 86400000000000, event_name = ''in_app_purchase'',
        amount = Some (- 5) \<rparr>]"

definition ex_gap_row0 :: quality_row where
  "ex_gap_row0 =
     \<lparr> q_date = 0, q_purchase_events = 1, q_session_events = 0, q_duplicate_events = 0,
       q_schema_drift_flag = 0, q_volume_anomaly_flag = 0, q_neg_amount_events = 0,
       q_score_completeness = 1, q_score_schema = 1, q_score_uniqueness = 0,
       q_score_volume = 0, q_score_validity = 0, q_trust_score = 50,
       q_reason = ''traffic_spike_possible_bots, invalid_amount_values'' \<rparr>"

definition ex_gap_row1 :: quality_row where
  "ex_gap_row1 =
     \<lparr> q_date = 1, q_purchase_events = 0, q_session_events = 0, q_duplicate_events = 0,
       q_schema_drift_flag = 0, q_volume_anomaly_flag = 0, q_neg_amount_events = 0,
       q_score_completeness = 0, q_score_schema = 0, q_score_uniqueness = 0,
       q_score_volume = 0, q_score_validity = 0, q_trust_score = 0,
       q_reason = ''possible_purchase_outage, schema_drift_purchase_name, traffic_spike_possible_bots, invalid_amount_values'' \<rparr>"

definition ex_gap_row2 :: quality_row where
  "ex_gap_row2 =
     \<lparr> q_date = 2, q_purchase_events = 1, q_session_events = 0, q_duplicate_events = 0,
       q_schema_drift_flag = 0, q_volume_anomaly_flag = 0, q_neg_amount_events = 1,
       q_score_completeness = 1, q_score_schema = 1, q_score_uniqueness = 0,
       q_score_volume = 0, q_score_validity = 0, q_trust_score = 50,
       q_reason = ''traffic_spike_possible_bots, invalid_amount_values'' \<rparr>"

text \<open>One purchase with a positive amount.\<close>

definition ex_valid :: "event list" where
  "ex_valid = [\<lparr> user_id = 1, event_ts = 0, event_name = ''purchase'', amount = Some 5 \<rparr>]"

text \<open>One \<open>in_app_purchase\<close> and no \<open>purchase\<close>.\<close>

definition ex_drift :: "event list" where
  "ex_drift =
     [\<lparr> user_id = 1, event_ts = 0, event_name = ''in_app_purchase'', amount = Some 5 \<rparr>]"

text \<open>Three purchases on day 0 and one purchase on day 7.\<close>

definition ex_sparse :: "event list" where
  "ex_sparse =
     [\<lparr> user_id = 1, event_ts = 0, event_name = ''purchase'', amount = Some 5 \<rparr>,
      \<lparr> user_id = 2, event_ts = 0, event_name = ''purchase'', amount = Some 5 \<rparr>,
      \<lparr> user_id = 3, event_ts = 0, event_name = ''purchase'', amount = Some 5 \<rparr>,
      \<lparr> user_id = 1, event_ts = 7 * 86400000000000, event_name = ''purchase'',
        amount = Some 5 \<rparr>]"

text \<open>The same session event twice on day 0 and a purchase on day 1, with the two rows
  that \<open>quality_checks\<close> returns on it.\<close>

definition ex_dup :: "event list" where
  "ex_dup =
     [\<lparr> user_id = 1, event_ts = 0, event_name = ''session_start'', amount = None \<rparr>,
      \<lparr> user_id = 1, event_ts = 0, event_name = ''session_start'', amount = None \<rparr>,
      \<lparr> user_id = 1, event_ts = 86400000000000, event_name = ''purchase'', amount = Some 5 \<rparr>]"

definition ex_dup_row0 :: quality_row where
  "ex_dup_row0 =
     \<lparr> q_date = 0, q_purchase_events = 0, q_session_events = 2, q_duplicate_events = 2,
       q_schema_drift_flag = 0, q_volume_anomaly_flag = 0, q_neg_amount_events = 0,
       q_score_completeness = 0, q_score_schema = 0, q_score_uniqueness = exp (- (2 / 3)),
       q_score_volume = 1, q_score_validity = 0, q_trust_score = 20 * exp (- (2 / 3)) + 15,
       q_reason = ''possible_purchase_outage, schema_drift_purchase_name, duplicates_detected, invalid_amount_values'' \<rparr>"

definition ex_dup_row1 :: quality_row where
  "ex_dup_row1 =
     \<lparr> q_date = 1, q_purchase_events = 1, q_session_events = 0, q_duplicate_events = 0,
       q_schema_drift_flag = 0, q_volume_anomaly_flag = 0, q_neg_amount_events = 0,
       q_score_completeness = 1, q_score_schema = 1, q_score_uniqueness = 0,
       q_score_volume = 0, q_score_validity = 0, q_trust_score = 50,
       q_reason = ''traffic_spike_possible_bots, invalid_amount_values'' \<rparr>"

text \<open>One session on each of the days 0 to 9 and a second session on day 9.\<close>

definition ex_spike :: "event list" where
  "ex_spike =
     [\<lparr> user_id = 1, event_ts = 0, event_name = ''session_start'', amount = None \<rparr>,
      \<lparr> user_id = 1, event_ts = 86400000000000, event_name = ''session_start'', amount = None \<rparr>,
      \<lparr> user_id = 1, event_ts = 2 * 86400000000000, event_name = ''session_start'', amount = None \<rparr>,
      \<lparr> user_id = 1, event_ts = 3 * 86400000000000, event_name = ''session_start'', amount = None \<rparr>,
      \<lparr> user_id = 1, event_ts = 4 * 86400000000000, event_name = ''session_start'', amount = None \<rparr>,
      \<lparr> user_id = 1, event_ts = 5 * 86400000000000, event_name = ''session_start'', amount = None \<rparr>,
      \<lparr> user_id = 1, event_ts = 6 * 86400000000000, event_name = ''session_start'', amount = None \<rparr>,
      \<lparr> user_id = 1, event_ts = 7 * 86400000000000, event_name = ''session_start'', amount = None \<rparr>,
      \<lparr> user_id = 1, event_ts = 8 * 86400000000000, event_name = ''session_start'', amount = None \<rparr>,
      \<lparr> user_id = 1, event_ts = 9 * 86400000000000, event_name = ''session_start'', amount = None \<rparr>,
      \<lparr> user_id = 2, event_ts = 9 * 86400000000000, event_name = ''session_start'', amount = None \<rparr>]"

text \<open>One session on day 0 and one purchase on day 9.\<close>

definition ex_lone :: "event list" where
  "ex_lone =
     [\<lparr> user_id = 1, event_ts = 0, event_name = ''session_start'', amount = None \<rparr>,
      \<lparr> user_id = 1, event_ts = 9 * 86400000000000, event_name = ''purchase'', amount = Some 5 \<rparr>]"

text \<open>The same session event twice on day 0 and another one four times on day 7.\<close>

definition ex_dups :: "event list" where
  "ex_dups =
     [\<lparr> user_id = 1, event_ts = 0, event_name = ''session_start'', amount = None \<rparr>,
      \<lparr> user_id = 1, event_ts = 0, event_name = ''session_start'', amount = None \<rparr>,
      \<lparr> user_id = 1, event_ts = 7 * 86400000000000, event_name = ''session_start'', amount = None \<rparr>,
      \<lparr> user_id = 1, event_ts = 7 * 86400000000000, event_name = ''session_start'', amount = None \<rparr>,
      \<lparr> user_id = 1, event_ts = 7 * 86400000000000, event_name = ''session_start'', amount = None \<rparr>,
      \<lparr> user_id = 1, event_ts = 7 * 86400000000000, event_name = ''session_start'', amount = None \<rparr>]"

subsection \<open>Notions used to state the properties\<close>

text \<open>The rule list of the reason tagger over five signal values: each rule is looked at
  on its own, and the tags of the rules that hold are kept in the order of the list. The
  tags that apply to a row are those of its five signals.\<close>

definition rule_tags :: "real \<Rightarrow> real \<Rightarrow> real \<Rightarrow> nat \<Rightarrow> real \<Rightarrow> string list" where
  "rule_tags c s v dup va =
     map snd (filter fst
       [(c < 0.70, ''possible_purchase_outage''),
        (s < 1.00, ''schema_drift_purchase_name''),
        (v < 1.00, ''traffic_spike_possible_bots''),
        (dup > 0, ''duplicates_detected''),
        (va < 1.00, ''invalid_amount_values'')])"

definition applicable_tags :: "quality_row \<Rightarrow> string list" where
  "applicable_tags r =
     rule_tags (q_score_completeness r) (q_score_schema r) (q_score_volume r)
       (q_duplicate_events r) (q_score_validity r)"

text \<open>Renaming the selected \<open>purchase\<close> events to \<open>in_app_purchase\<close>, as the schema drift
  of \<open>inject_failures\<close> in \<open>src/data_gen.py\<close> does
  (\<open>df.loc[mask, "event_name"] = "in_app_purchase"\<close>).\<close>

definition rename_purchase :: "(event \<Rightarrow> bool) \<Rightarrow> event list \<Rightarrow> event list" where
  "rename_purchase sel df =
     map (\<lambda>e. if sel e \<and> event_name e = ''purchase''
              then e\<lparr> event_name := ''in_app_purchase'' \<rparr> else e) df"

text \<open>The number of \<open>session_start\<close> events of a day, and the population of the volume
  score: the daily numbers of such events over the days that have at least one, in order
  of date.\<close>

definition session_count :: "event list \<Rightarrow> int \<Rightarrow> nat" where
  "session_count df d =
     length (filter (\<lambda>e. date e = d \<and> event_name e = ''session_start'') df)"

definition session_population :: "event list \<Rightarrow> real list" where
  "session_population df =
     map (\<lambda>d. real (session_count df d))
       (sort (remdups (map date (filter (\<lambda>e. event_name e = ''session_start'') df))))"

text \<open>The exact mean, population standard deviation and z-score over that population.\<close>

definition session_mean :: "event list \<Rightarrow> real" where
  "session_mean df = sum_list (session_population df) / real (length (session_population df))"

definition session_std :: "event list \<Rightarrow> real" where
  "session_std df =
     sqrt (sum_list (map (\<lambda>x. (x - session_mean df)\<^sup>2) (session_population df))
           / real (length (session_population df)))"

definition session_z :: "event list \<Rightarrow> int \<Rightarrow> real" where
  "session_z df d =
     (real (session_count df d) - session_mean df)
       / (if session_std df = 0 then 1 else session_std df)"

text \<open>The z-score of a day as float64 computes it over the same population: mean and
  standard deviation by the float64 operations (the standard deviation replaced by 1.0
  when it is 0), then the float64 subtraction and division; NaN is \<open>None\<close>.\<close>

definition float_z :: "float64_ops \<Rightarrow> event list \<Rightarrow> int \<Rightarrow> real option" where
  "float_z fo df d =
     (let pop = session_population df;
          sd = (if f_std0 fo pop \<noteq> Some 0 then f_std0 fo pop else Some 1)
      in nan_op (f_div fo) (nan_op (f_sub fo) (Some (real (session_count df d))) (f_mean fo pop)) sd)"

text \<open>The number of rows of a table on a day; the (up to) seven latest days, up to and
  including \<open>d\<close>, on which the table has at least one row; and the median of the daily
  row counts over those days.\<close>

definition count_on :: "event list \<Rightarrow> int \<Rightarrow> nat" where
  "count_on rows d = length (filter (\<lambda>e. date e = d) rows)"

definition recent_days :: "event list \<Rightarrow> int \<Rightarrow> int list" where
  "recent_days rows d =
     (let ds = filter (\<lambda>x. x \<le> d) (sort (remdups (map date rows)))
      in drop (length ds - 7) ds)"

definition recent_median :: "event list \<Rightarrow> int \<Rightarrow> real option" where
  "recent_median rows d = median (map (\<lambda>x. real (count_on rows x)) (recent_days rows d))"

text \<open>The completeness score as C5 words it, from the daily \<open>purchase_events\<close> counts: the
  baseline of day \<open>d\<close> is the median of the counts of the calendar days \<open>d - 6\<close> to \<open>d\<close>
  present in the table, undefined when it is zero; the score is the clamped ratio, and 0
  when the baseline is undefined.\<close>

definition calendar_baseline :: "nat series \<Rightarrow> int \<Rightarrow> real option" where
  "calendar_baseline daily d =
     replace0 (median (map (real \<circ> snd) (filter (\<lambda>(x, n). d - 6 \<le> x \<and> x \<le> d) daily)))"

definition calendar_completeness :: "nat series \<Rightarrow> int \<Rightarrow> real" where
  "calendar_completeness daily d =
     (case calendar_baseline daily d of
        None \<Rightarrow> 0
      | Some b \<Rightarrow> min 1 (max 0 (real (column0 daily d) / b)))"

text \<open>Record \<open>i\<close> of the table is a duplicate when another record has the same
  \<open>(user_id, event_ts, event_name, amount)\<close>; the duplicates of a day are all such
  records of that day.\<close>

definition is_duplicate :: "event list \<Rightarrow> nat \<Rightarrow> bool" where
  "is_duplicate df i = (\<exists>j\<in>set [0..<length df]. j \<noteq> i \<and> dup_key (df ! j) = dup_key (df ! i))"

definition duplicates_on :: "event list \<Rightarrow> int \<Rightarrow> nat" where
  "duplicates_on df d =
     length (filter (\<lambda>i. date (df ! i) = d \<and> is_duplicate df i) [0..<length df])"

text \<open>The uniqueness score as C2 words it, from the daily \<open>duplicate_events\<close> counts: the
  baseline of day \<open>d\<close> is the median of the counts of the calendar days \<open>d - 6\<close> to \<open>d\<close>
  present in the table, 0 when there is none.\<close>

definition calendar_uniqueness :: "nat series \<Rightarrow> int \<Rightarrow> real" where
  "calendar_uniqueness daily d =
     exp (- (real (column0 daily d)
       / (fillna0 (median (map (real \<circ> snd) (filter (\<lambda>(x, n). d - 6 \<le> x \<and> x \<le> d) daily)))
          + 1)))"

text \<open>The z-score as C6 words it, from the daily \<open>session_events\<close> counts of the whole
  range: population mean and standard deviation over every day of the table.\<close>

definition range_mean :: "nat series \<Rightarrow> real" where
  "range_mean daily = sum_list (map (real \<circ> snd) daily) / real (length daily)"

definition range_std :: "nat series \<Rightarrow> real" where
  "range_std daily =
     sqrt (sum_list (map (\<lambda>(d, n). (real n - range_mean daily)\<^sup>2) daily) / real (length daily))"

definition range_z :: "nat series \<Rightarrow> int \<Rightarrow> real" where
  "range_z daily d =
     (real (column0 daily d) - range_mean daily)
       / (if range_std daily = 0 then 1 else range_std daily)"

section \<open>Properties\<close>

subsection \<open>Grouped series and the rows of the daily frame\<close>

lemma groupby_size_index: "map fst (groupby_size rows) = sort (remdups (map date rows))"
  by (simp add: groupby_size_def comp_def)

lemma groupby_size_distinct: "distinct (map fst (groupby_size rows))"
  by (simp add: groupby_size_index)

lemma groupby_size_sorted: "sorted (map fst (groupby_size rows))"
  by (simp add: groupby_size_index)

lemma map_of_groupby_size:
  "map_of (groupby_size rows) d =
     (if d \<in> date ` set rows then Some (length (filter (\<lambda>e. date e = d) rows)) else None)"
  by (simp add: groupby_size_def map_of_map_restrict restrict_map_def)

lemma column0_groupby_size:
  "column0 (groupby_size rows) d = length (filter (\<lambda>e. date e = d) rows)"
proof (cases "d \<in> date ` set rows")
  case True
  then show ?thesis by (simp add: column0_def map_of_groupby_size)
next
  case False
  then have "filter (\<lambda>e. date e = d) rows = []"
    by (auto simp: filter_empty_conv)
  with False show ?thesis by (simp add: column0_def map_of_groupby_size)
qed

lemma map_of_map_values:
  "map_of (map (\<lambda>(d, v). (d, f v)) s) d = map_option f (map_of s d)"
  by (induction s) auto

lemma column0_absent: "d \<notin> fst ` set s \<Longrightarrow> column0 s d = 0"
  by (simp add: column0_def map_of_eq_None_iff[THEN iffD2])

lemma date_min_eq: "df \<noteq> [] \<Longrightarrow> date_min df = Some (Min (date ` set df))"
  by (cases df) (simp_all add: date_min_def Min.set_eq_fold[symmetric])

lemma date_max_eq: "df \<noteq> [] \<Longrightarrow> date_max df = Some (Max (date ` set df))"
  by (cases df) (simp_all add: date_max_def Max.set_eq_fold[symmetric])

lemma quality_checks_nonempty:
  "df \<noteq> [] \<Longrightarrow>
   quality_checks fo df = Inr (map (q_row fo df) [Min (date ` set df)..Max (date ` set df)])"
  by (simp add: quality_checks_def date_range_def date_min_eq date_max_eq)

lemma quality_checks_empty: "quality_checks fo [] = Inl ValueError"
  by (simp add: quality_checks_def date_range_def date_min_def)

lemma quality_checks_rows:
  assumes "quality_checks fo df = Inr rows"
  shows "df \<noteq> [] \<and> rows = map (q_row fo df) [Min (date ` set df)..Max (date ` set df)]"
proof (cases "df = []")
  case True
  with assms show ?thesis by (simp add: quality_checks_empty)
next
  case False
  with assms show ?thesis by (simp add: quality_checks_nonempty)
qed

lemma quality_checks_row:
  assumes "quality_checks fo df = Inr rows" and "r \<in> set rows"
  shows "r = q_row fo df (q_date r)"
proof -
  from assms obtain d where "r = q_row fo df d"
    using quality_checks_rows[OF assms(1)] by auto
  moreover have "q_date (q_row fo df d) = d" by (simp add: q_row_def Let_def)
  ultimately show ?thesis by simp
qed

lemma filter_subset_no_date:
  assumes "\<forall>e\<in>set df. date e \<noteq> d" and "set rows \<subseteq> set df"
  shows "column0 (groupby_size rows) d = 0"
proof -
  from assms have "filter (\<lambda>e. date e = d) rows = []"
    by (auto simp: filter_empty_conv)
  then show ?thesis by (simp add: column0_groupby_size)
qed

lemma has_purchase_values: "(d, v) \<in> set (has_purchase df) \<Longrightarrow> v = 1"
  by (auto simp: has_purchase_def groupby_size_def filter_empty_conv)

lemma series_eq_has_purchase_0:
  "map_of (series_eq (has_purchase df) 0) d \<noteq> Some True"
proof
  assume "map_of (series_eq (has_purchase df) 0) d = Some True"
  then have "(d, True) \<in> set (series_eq (has_purchase df) 0)"
    by (rule map_of_SomeD)
  then obtain v where "(d, v) \<in> set (has_purchase df)" and "v = 0"
    by (auto simp: series_eq_def)
  then show False using has_purchase_values by fastforce
qed

lemma series_and_right_never:
  assumes "\<And>d. map_of r d \<noteq> Some True" and "(d, b) \<in> set (series_and l r)"
  shows "\<not> b"
proof (cases "map_of r d")
  case None
  with assms(2) show ?thesis by (auto simp: series_and_def split: option.splits)
next
  case (Some c)
  with assms(1)[of d] have "\<not> c" by auto
  with Some assms(2) show ?thesis by (auto simp: series_and_def split: option.splits)
qed

lemma schema_drift_flag_values:
  assumes "(d, f) \<in> set (schema_drift_flag df)"
  shows "f = 0"
proof -
  from assms obtain b
    where b: "(d, b) \<in> set (series_and (series_eq (has_iap df) 1) (series_eq (has_purchase df) 0))"
      and f: "f = (if b then 1 else 0)"
    by (auto simp: schema_drift_flag_def)
  have "\<not> b"
    by (rule series_and_right_never[OF _ b]) (rule series_eq_has_purchase_0)
  with f show ?thesis by simp
qed

lemma column0_schema_drift_flag: "column0 (schema_drift_flag df) d = 0"
proof (cases "map_of (schema_drift_flag df) d")
  case None
  then show ?thesis by (simp add: column0_def)
next
  case (Some f)
  then have "(d, f) \<in> set (schema_drift_flag df)" by (rule map_of_SomeD)
  then have "f = 0" by (rule schema_drift_flag_values)
  with Some show ?thesis by (simp add: column0_def)
qed

lemma volume_anomaly_flag_index:
  "map fst (volume_anomaly_flag fo df) = map fst (sessions df)"
  by (simp add: volume_anomaly_flag_def z_score_def Let_def comp_def case_prod_unfold)

lemma sessions_absent:
  assumes "\<forall>e\<in>set df. date e = d \<longrightarrow> event_name e \<noteq> ''session_start''"
  shows "d \<notin> fst ` set (sessions df)"
proof -
  have "fst ` set (sessions df) = set (map fst (sessions df))" by simp
  also have "\<dots> = date ` set (filter (\<lambda>e. event_name e = ''session_start'') df)"
    by (simp add: sessions_def groupby_size_index)
  finally show ?thesis using assms by auto
qed

lemma column0_volume_anomaly_flag_absent:
  assumes "\<forall>e\<in>set df. date e = d \<longrightarrow> event_name e \<noteq> ''session_start''"
  shows "column0 (volume_anomaly_flag fo df) d = 0"
proof -
  have "fst ` set (volume_anomaly_flag fo df) = fst ` set (sessions df)"
    using volume_anomaly_flag_index[of fo df] by (metis set_map)
  with sessions_absent[OF assms] show ?thesis by (simp add: column0_absent)
qed

lemma q_row_simps:
  "q_date (q_row fo df d) = d"
  "q_purchase_events (q_row fo df d) = column0 (purchase_events df) d"
  "q_session_events (q_row fo df d) = column0 (sessions df) d"
  "q_duplicate_events (q_row fo df d) = column0 (dup_count df) d"
  "q_schema_drift_flag (q_row fo df d) = column0 (schema_drift_flag df) d"
  "q_volume_anomaly_flag (q_row fo df d) = column0 (volume_anomaly_flag fo df) d"
  "q_neg_amount_events (q_row fo df d) = column0 (neg_amount df) d"
  "q_score_completeness (q_row fo df d) = column0 (score_completeness df) d"
  "q_score_schema (q_row fo df d) = column0 (score_schema df) d"
  "q_score_uniqueness (q_row fo df d) = column0 (score_uniqueness df) d"
  "q_score_volume (q_row fo df d) = column0 (score_volume fo df) d"
  "q_score_validity (q_row fo df d) = column0 (score_validity df) d"
  by (simp_all add: q_row_def Let_def)

lemma zero_event_day:
  assumes "\<forall>e\<in>set df. date e \<noteq> d"
  shows "q_purchase_events (q_row fo df d) = 0 \<and> q_session_events (q_row fo df d) = 0 \<and>
         q_duplicate_events (q_row fo df d) = 0 \<and> q_neg_amount_events (q_row fo df d) = 0 \<and>
         q_schema_drift_flag (q_row fo df d) = 0 \<and> q_volume_anomaly_flag (q_row fo df d) = 0"
proof -
  have "column0 (purchase_events df) d = 0"
    unfolding purchase_events_def by (rule filter_subset_no_date[OF assms]) (auto simp: purch_def)
  moreover have "column0 (sessions df) d = 0"
    unfolding sessions_def by (rule filter_subset_no_date[OF assms]) auto
  moreover have "column0 (dup_count df) d = 0"
    unfolding dup_count_def by (rule filter_subset_no_date[OF assms]) auto
  moreover have "column0 (neg_amount df) d = 0"
    unfolding neg_amount_def by (rule filter_subset_no_date[OF assms]) (auto simp: purch_def)
  moreover have "column0 (volume_anomaly_flag fo df) d = 0"
    using assms by (intro column0_volume_anomaly_flag_absent) auto
  ultimately show ?thesis by (simp add: q_row_simps column0_schema_drift_flag)
qed

subsection \<open>The sample inputs, evaluated\<close>

lemmas quality_checks_unfold =
  quality_checks_def date_range_def date_min_def date_max_def q_row_def column0_def
  score_completeness_def score_schema_def score_uniqueness_def score_volume_def
  score_validity_def dup_count_def purchase_events_def sessions_def schema_drift_flag_def
  volume_anomaly_flag_def neg_amount_def trust_score_def reason_def tags_def groupby_size_def
  date_def ns_per_day_def purch_def baseline_purchase_def rolling_median_def median_def
  replace0_def clip01_def fillna0_def nan_op_def has_purchase_def has_iap_def series_eq_def
  series_and_def dup_mask_def dup_key_def dup_baseline_def z_score_def double_2_8_def
  exact_ops_def Let_def upto.simps

lemma quality_checks_ex_gap:
  "quality_checks exact_ops ex_gap = Inr [ex_gap_row0, ex_gap_row1, ex_gap_row2]"
  by (simp add: ex_gap_def ex_gap_row0_def ex_gap_row1_def ex_gap_row2_def quality_checks_unfold)

lemma ex_gap_days: "date ` set ex_gap = {0, 2}"
  by (simp add: ex_gap_def date_def ns_per_day_def)

lemma quality_checks_ex_dup: "quality_checks exact_ops ex_dup = Inr [ex_dup_row0, ex_dup_row1]"
  by (simp add: ex_dup_def ex_dup_row0_def ex_dup_row1_def quality_checks_unfold)

subsection \<open>One row per calendar day\<close>

text \<open>
  C9. For every non-empty input, \<open>quality_checks\<close> returns a table whose dates are exactly
  the calendar days from the earliest to the latest event date, each once and in order;
  on a day without any event the four counts (\<open>purchase_events\<close>, \<open>session_events\<close>,
  \<open>duplicate_events\<close>, \<open>neg_amount_events\<close>) and the two flags are 0.
\<close>

theorem one_row_per_day:
  assumes "df \<noteq> []"
  shows "\<exists>rows. quality_checks fo df = Inr rows \<and>
           map q_date rows = [Min (date ` set df)..Max (date ` set df)] \<and>
           (\<forall>r\<in>set rows. (\<forall>e\<in>set df. date e \<noteq> q_date r) \<longrightarrow>
              q_purchase_events r = 0 \<and> q_session_events r = 0 \<and>
              q_duplicate_events r = 0 \<and> q_neg_amount_events r = 0 \<and>
              q_schema_drift_flag r = 0 \<and> q_volume_anomaly_flag r = 0)"
proof -
  let ?days = "[Min (date ` set df)..Max (date ` set df)]"
  have rows: "quality_checks fo df = Inr (map (q_row fo df) ?days)"
    using assms by (rule quality_checks_nonempty)
  have dates: "map q_date (map (q_row fo df) ?days) = ?days"
    by (simp add: q_row_simps comp_def)
  have zero: "\<forall>r\<in>set (map (q_row fo df) ?days). (\<forall>e\<in>set df. date e \<noteq> q_date r) \<longrightarrow>
              q_purchase_events r = 0 \<and> q_session_events r = 0 \<and>
              q_duplicate_events r = 0 \<and> q_neg_amount_events r = 0 \<and>
              q_schema_drift_flag r = 0 \<and> q_volume_anomaly_flag r = 0"
  proof (intro ballI impI)
    fix r assume "r \<in> set (map (q_row fo df) ?days)" and none: "\<forall>e\<in>set df. date e \<noteq> q_date r"
    then obtain d where r: "r = q_row fo df d" by auto
    with none have "\<forall>e\<in>set df. date e \<noteq> d" by (simp add: q_row_simps)
    then show "q_purchase_events r = 0 \<and> q_session_events r = 0 \<and>
              q_duplicate_events r = 0 \<and> q_neg_amount_events r = 0 \<and>
              q_schema_drift_flag r = 0 \<and> q_volume_anomaly_flag r = 0"
      unfolding r by (rule zero_event_day)
  qed
  from rows dates zero show ?thesis by blast
qed

text \<open>The theorem at \<open>ex_gap\<close>: three rows for the days 0, 1 and 2, and the row of the
  empty day 1 has zero counts and flags.\<close>

theorem one_row_per_day_witness:
  "ex_gap \<noteq> [] \<and>
   quality_checks exact_ops ex_gap = Inr [ex_gap_row0, ex_gap_row1, ex_gap_row2] \<and>
   map q_date [ex_gap_row0, ex_gap_row1, ex_gap_row2] = [0, 1, 2] \<and>
   filter (\<lambda>e. date e = 1) ex_gap = [] \<and>
   [q_purchase_events ex_gap_row1, q_session_events ex_gap_row1,
    q_duplicate_events ex_gap_row1, q_neg_amount_events ex_gap_row1,
    q_schema_drift_flag ex_gap_row1, q_volume_anomaly_flag ex_gap_row1] = [0, 0, 0, 0, 0, 0]"
proof -
  have h: "ex_gap \<noteq> []" by (simp add: ex_gap_def)
  from one_row_per_day[OF h] obtain rows where
    rows: "quality_checks exact_ops ex_gap = Inr rows" and
    days: "map q_date rows = [Min (date ` set ex_gap)..Max (date ` set ex_gap)]" and
    zero: "\<forall>r\<in>set rows. (\<forall>e\<in>set ex_gap. date e \<noteq> q_date r) \<longrightarrow>
              q_purchase_events r = 0 \<and> q_session_events r = 0 \<and>
              q_duplicate_events r = 0 \<and> q_neg_amount_events r = 0 \<and>
              q_schema_drift_flag r = 0 \<and> q_volume_anomaly_flag r = 0"
    by blast
  from rows have eq: "rows = [ex_gap_row0, ex_gap_row1, ex_gap_row2]"
    by (simp add: quality_checks_ex_gap)
  from days have d: "map q_date rows = [0, 1, 2]"
    by (simp add: ex_gap_days upto.simps)
  have none: "\<forall>e\<in>set ex_gap. date e \<noteq> q_date ex_gap_row1"
    by (simp add: ex_gap_def ex_gap_row1_def date_def ns_per_day_def)
  have "ex_gap_row1 \<in> set rows" by (simp add: eq)
  with zero none have "q_purchase_events ex_gap_row1 = 0 \<and> q_session_events ex_gap_row1 = 0 \<and>
              q_duplicate_events ex_gap_row1 = 0 \<and> q_neg_amount_events ex_gap_row1 = 0 \<and>
              q_schema_drift_flag ex_gap_row1 = 0 \<and> q_volume_anomaly_flag ex_gap_row1 = 0"
    by blast
  moreover have "filter (\<lambda>e. date e = 1) ex_gap = []"
    by (simp add: ex_gap_def date_def ns_per_day_def)
  ultimately show ?thesis using h rows d eq by simp
qed

subsection \<open>Empty input\<close>

text \<open>
  C7, as amended. On an input with zero events \<open>quality_checks\<close> returns no table: the
  minimum and maximum dates are undefined (NaT), and building the date range from them
  raises \<open>ValueError\<close>.
\<close>

theorem empty_input_raises: "quality_checks fo [] = Inl ValueError"
  by (simp add: quality_checks_def date_range_def date_min_def)

text \<open>C7, as stated, is false: the result on the empty input is not the empty table.\<close>

theorem empty_input_no_empty_table: "quality_checks exact_ops [] \<noteq> Inr []"
  by (simp add: quality_checks_def date_range_def date_min_def)

subsection \<open>Validity\<close>

text \<open>
  C1 at an input with one purchase of amount 5 and no negative amount: the day is absent
  from \<open>neg_amount\<close>, so its \<open>score_validity\<close> is the fill value 0 (the claim says 1.00),
  and the row carries the tag \<open>invalid_amount_values\<close>.
\<close>

theorem validity_without_negative_amount:
  "quality_checks fo ex_valid =
   Inr [\<lparr> q_date = 0, q_purchase_events = 1, q_session_events = 0, q_duplicate_events = 0,
          q_schema_drift_flag = 0, q_volume_anomaly_flag = 0, q_neg_amount_events = 0,
          q_score_completeness = 1, q_score_schema = 1, q_score_uniqueness = 0,
          q_score_volume = 0, q_score_validity = 0, q_trust_score = 50,
          q_reason = ''traffic_spike_possible_bots, invalid_amount_values'' \<rparr>]"
  by (simp add: ex_valid_def quality_checks_unfold)

text \<open>
  The same holds on every input: an entry of \<open>neg_amount\<close> is the size of a group, hence
  positive, so every entry of \<open>score_validity\<close> is 0, and the days without an entry are
  filled with 0.
\<close>

lemma groupby_size_positive: "(d, n) \<in> set (groupby_size rows) \<Longrightarrow> 0 < n"
  by (auto simp: groupby_size_def filter_empty_conv)

lemma score_validity_always_zero:
  assumes "quality_checks fo df = Inr rows" and "r \<in> set rows"
  shows "q_score_validity r = 0"
proof -
  from assms have r: "r = q_row fo df (q_date r)" by (rule quality_checks_row)
  have "column0 (score_validity df) (q_date r) = 0"
  proof (cases "map_of (score_validity df) (q_date r)")
    case None
    then show ?thesis by (simp add: column0_def)
  next
    case (Some v)
    then have "(q_date r, v) \<in> set (score_validity df)" by (rule map_of_SomeD)
    then obtain n where "(q_date r, n) \<in> set (neg_amount df)"
      and v: "v = (if real n > 0 then 0 else 1)"
      by (auto simp: score_validity_def)
    then have "0 < n" unfolding neg_amount_def by (auto dest: groupby_size_positive)
    with v Some show ?thesis by (simp add: column0_def)
  qed
  then show ?thesis by (subst r) (simp add: q_row_simps)
qed

subsection \<open>Reason tags\<close>

lemma q_row_reason:
  "q_reason (q_row fo df d) =
     reason (tags (column0 (score_completeness df) d) (column0 (score_schema df) d)
       (column0 (score_volume fo df) d) (column0 (dup_count df) d) (column0 (score_validity df) d))"
  by (simp add: q_row_def Let_def)

lemma q_row_trust_score:
  "q_trust_score (q_row fo df d) =
     trust_score (column0 (score_completeness df) d) (column0 (score_schema df) d)
       (column0 (score_uniqueness df) d) (column0 (score_volume fo df) d)
       (column0 (score_validity df) d)"
  by (simp add: q_row_def Let_def)

lemma tags_rule_tags: "tags c s v dup va = rule_tags c s v dup va"
  by (simp add: tags_def rule_tags_def)

lemma rule_tags_subset:
  "set (rule_tags c s v dup va) \<subseteq>
     {''possible_purchase_outage'', ''schema_drift_purchase_name'',
      ''traffic_spike_possible_bots'', ''duplicates_detected'', ''invalid_amount_values''}"
  by (auto simp: rule_tags_def)

lemma rule_tags_empty:
  "rule_tags c s v dup va = [] \<longleftrightarrow> 0.70 \<le> c \<and> 1 \<le> s \<and> 1 \<le> v \<and> dup = 0 \<and> 1 \<le> va"
  by (auto simp: rule_tags_def)

lemma join_Cons: "join sep (t # ts) = t @ (if ts = [] then [] else sep @ join sep ts)"
  by (cases ts) simp_all

lemma join_tags_not_ok:
  assumes "ts \<noteq> []"
    and "set ts \<subseteq>
     {''possible_purchase_outage'', ''schema_drift_purchase_name'',
      ''traffic_spike_possible_bots'', ''duplicates_detected'', ''invalid_amount_values''}"
  shows "join '', '' ts \<noteq> ''ok''"
proof -
  from assms(1) obtain t us where ts: "ts = t # us" by (cases ts) auto
  with assms(2) have "t \<in> {''possible_purchase_outage'', ''schema_drift_purchase_name'',
      ''traffic_spike_possible_bots'', ''duplicates_detected'', ''invalid_amount_values''}"
    by simp
  then have "hd (t @ (if us = [] then [] else '', '' @ join '', '' us)) \<noteq> CHR ''o''"
    by auto
  then have "hd (join '', '' ts) \<noteq> hd ''ok''"
    by (simp add: ts join_Cons)
  then show ?thesis by metis
qed

text \<open>
  C8. For any five signal values, the reason built by the tagger is the \<open>", "\<close>-join of
  exactly the tags whose rule holds, in the fixed order of the rule list (completeness
  below 0.70, schema below 1, volume below 1, duplicate count above 0, validity below 1),
  and it is the literal \<open>ok\<close> exactly when no rule holds, that is when completeness is at
  least 0.70, schema, volume and validity are at least 1 and the duplicate count is 0. On
  every row of the output, \<open>reason\<close> is the reason built from the five signals of that row.
\<close>

theorem reason_joins_applicable_tags:
  "reason (tags c s v dup va) =
     (if rule_tags c s v dup va = [] then ''ok'' else join '', '' (rule_tags c s v dup va)) \<and>
   (reason (tags c s v dup va) = ''ok'' \<longleftrightarrow> rule_tags c s v dup va = []) \<and>
   (rule_tags c s v dup va = [] \<longleftrightarrow> 0.70 \<le> c \<and> 1 \<le> s \<and> 1 \<le> v \<and> dup = 0 \<and> 1 \<le> va) \<and>
   (quality_checks fo df = Inr rows \<and> r \<in> set rows \<longrightarrow>
      q_reason r =
        reason (tags (q_score_completeness r) (q_score_schema r) (q_score_volume r)
          (q_duplicate_events r) (q_score_validity r)) \<and>
      q_reason r =
        (if applicable_tags r = [] then ''ok'' else join '', '' (applicable_tags r)) \<and>
      (q_reason r = ''ok'' \<longleftrightarrow> applicable_tags r = []))"
proof -
  have general: "reason (tags c s v dup va) =
     (if rule_tags c s v dup va = [] then ''ok'' else join '', '' (rule_tags c s v dup va)) \<and>
   (reason (tags c s v dup va) = ''ok'' \<longleftrightarrow> rule_tags c s v dup va = [])"
    for c s v dup va
  proof -
    have eq: "reason (tags c s v dup va) =
        (if rule_tags c s v dup va = [] then ''ok'' else join '', '' (rule_tags c s v dup va))"
      by (simp add: reason_def tags_rule_tags)
    moreover have "rule_tags c s v dup va \<noteq> [] \<Longrightarrow> join '', '' (rule_tags c s v dup va) \<noteq> ''ok''"
      by (rule join_tags_not_ok[OF _ rule_tags_subset])
    ultimately show ?thesis by auto
  qed
  have row: "q_reason r =
        reason (tags (q_score_completeness r) (q_score_schema r) (q_score_volume r)
          (q_duplicate_events r) (q_score_validity r)) \<and>
      q_reason r =
        (if applicable_tags r = [] then ''ok'' else join '', '' (applicable_tags r)) \<and>
      (q_reason r = ''ok'' \<longleftrightarrow> applicable_tags r = [])"
    if "quality_checks fo df = Inr rows" and "r \<in> set rows"
  proof -
    from that have r: "r = q_row fo df (q_date r)" by (rule quality_checks_row)
    have "q_reason (q_row fo df (q_date r)) =
            reason (tags (q_score_completeness (q_row fo df (q_date r)))
              (q_score_schema (q_row fo df (q_date r))) (q_score_volume (q_row fo df (q_date r)))
              (q_duplicate_events (q_row fo df (q_date r)))
              (q_score_validity (q_row fo df (q_date r))))"
      by (simp add: q_row_reason q_row_simps)
    with r have q: "q_reason r =
        reason (tags (q_score_completeness r) (q_score_schema r) (q_score_volume r)
          (q_duplicate_events r) (q_score_validity r))"
      by simp
    note g = general[of "q_score_completeness r" "q_score_schema r" "q_score_volume r"
        "q_duplicate_events r" "q_score_validity r"]
    have "q_reason r =
        (if applicable_tags r = [] then ''ok'' else join '', '' (applicable_tags r))"
      unfolding applicable_tags_def q using g by blast
    moreover have "q_reason r = ''ok'' \<longleftrightarrow> applicable_tags r = []"
      unfolding applicable_tags_def q using g by blast
    ultimately show ?thesis using q by blast
  qed
  from general[of c s v dup va] rule_tags_empty[of c s v dup va] row show ?thesis by blast
qed

text \<open>The theorem where no rule holds, where only the completeness rule holds (the
  scenario of 15 purchases against a baseline of 100), where the four other rules hold,
  and at a row of an output, the empty day of \<open>ex_gap\<close>.\<close>

theorem reason_joins_applicable_tags_witness:
  "rule_tags 1 1 1 0 1 = [] \<and>
   reason (tags 1 1 1 0 1) = ''ok'' \<and>
   reason (tags 0.15 1 1 0 1) = ''possible_purchase_outage'' \<and>
   reason (tags 1 0.60 0.55 3 0) =
     ''schema_drift_purchase_name, traffic_spike_possible_bots, duplicates_detected, invalid_amount_values'' \<and>
   quality_checks exact_ops ex_gap = Inr [ex_gap_row0, ex_gap_row1, ex_gap_row2] \<and>
   ex_gap_row1 \<in> set [ex_gap_row0, ex_gap_row1, ex_gap_row2] \<and>
   applicable_tags ex_gap_row1 =
     [''possible_purchase_outage'', ''schema_drift_purchase_name'',
      ''traffic_spike_possible_bots'', ''invalid_amount_values''] \<and>
   q_reason ex_gap_row1 =
     join '', '' [''possible_purchase_outage'', ''schema_drift_purchase_name'',
       ''traffic_spike_possible_bots'', ''invalid_amount_values''] \<and>
   q_reason ex_gap_row1 \<noteq> ''ok''"
proof -
  have none: "rule_tags 1 1 1 0 1 = []" by (simp add: rule_tags_def)
  with reason_joins_applicable_tags[of 1 1 1 0 1]
  have ok: "reason (tags 1 1 1 0 1) = ''ok''" by blast
  have "rule_tags 0.15 1 1 0 1 = [''possible_purchase_outage'']" by (simp add: rule_tags_def)
  with reason_joins_applicable_tags[of "0.15" 1 1 0 1]
  have one: "reason (tags 0.15 1 1 0 1) = ''possible_purchase_outage''" by simp
  have "rule_tags 1 0.60 0.55 3 0 =
      [''schema_drift_purchase_name'', ''traffic_spike_possible_bots'',
       ''duplicates_detected'', ''invalid_amount_values'']"
    by (simp add: rule_tags_def)
  with reason_joins_applicable_tags[of 1 "0.60" "0.55" 3 0]
  have four: "reason (tags 1 0.60 0.55 3 0) =
     ''schema_drift_purchase_name, traffic_spike_possible_bots, duplicates_detected, invalid_amount_values''"
    by simp
  have mem: "ex_gap_row1 \<in> set [ex_gap_row0, ex_gap_row1, ex_gap_row2]" by simp
  have tags: "applicable_tags ex_gap_row1 =
     [''possible_purchase_outage'', ''schema_drift_purchase_name'',
      ''traffic_spike_possible_bots'', ''invalid_amount_values'']"
    by (simp add: applicable_tags_def rule_tags_def ex_gap_row1_def)
  from reason_joins_applicable_tags[of _ _ _ _ _ exact_ops ex_gap _ ex_gap_row1]
    quality_checks_ex_gap mem
  have "q_reason ex_gap_row1 =
        (if applicable_tags ex_gap_row1 = [] then ''ok''
         else join '', '' (applicable_tags ex_gap_row1)) \<and>
      (q_reason ex_gap_row1 = ''ok'' \<longleftrightarrow> applicable_tags ex_gap_row1 = [])"
    by blast
  with tags have "q_reason ex_gap_row1 =
     join '', '' [''possible_purchase_outage'', ''schema_drift_purchase_name'',
       ''traffic_spike_possible_bots'', ''invalid_amount_values''] \<and>
   q_reason ex_gap_row1 \<noteq> ''ok''"
    by simp
  with none ok one four quality_checks_ex_gap mem tags show ?thesis by blast
qed

subsection \<open>Trust score and ranges\<close>

lemma column0_unit_interval:
  fixes s :: "real series"
  assumes "\<And>k v. (k, v) \<in> set s \<Longrightarrow> 0 \<le> v \<and> v \<le> 1"
  shows "0 \<le> column0 s d \<and> column0 s d \<le> 1"
proof (cases "map_of s d")
  case None
  then show ?thesis by (simp add: column0_def)
next
  case (Some v)
  then have "(d, v) \<in> set s" by (rule map_of_SomeD)
  with assms Some show ?thesis by (simp add: column0_def)
qed

lemma fillna0_clip01_unit: "0 \<le> fillna0 (clip01 x) \<and> fillna0 (clip01 x) \<le> 1"
  by (cases x) (simp_all add: fillna0_def clip01_def)

lemma score_completeness_unit:
  "(k, v) \<in> set (score_completeness df) \<Longrightarrow> 0 \<le> v \<and> v \<le> 1"
  using fillna0_clip01_unit by (auto simp: score_completeness_def)

lemma score_schema_unit: "(k, v) \<in> set (score_schema df) \<Longrightarrow> 0 \<le> v \<and> v \<le> 1"
  by (auto simp: score_schema_def)

lemma score_volume_unit: "(k, v) \<in> set (score_volume fo df) \<Longrightarrow> 0 \<le> v \<and> v \<le> 1"
  by (auto simp: score_volume_def)

lemma score_validity_unit: "(k, v) \<in> set (score_validity df) \<Longrightarrow> 0 \<le> v \<and> v \<le> 1"
  by (auto simp: score_validity_def)

lemma sort_eq_Nil: "sort xs = [] \<longleftrightarrow> xs = []"
  by (metis length_sort length_0_conv)

lemma median_unfold:
  "median xs =
     (if xs = [] then None
      else if odd (length xs) then Some (sort xs ! (length xs div 2))
      else Some ((sort xs ! (length xs div 2 - 1) + sort xs ! (length xs div 2)) / 2))"
  by (simp add: median_def Let_def sort_eq_Nil)

lemma median_lower_bound:
  assumes "\<And>x. x \<in> set xs \<Longrightarrow> c \<le> x" and "median xs = Some m"
  shows "c \<le> m"
proof -
  have el: "c \<le> sort xs ! i" if "i < length xs" for i
  proof -
    from that have "sort xs ! i \<in> set xs" by (metis nth_mem length_sort set_sort)
    then show ?thesis using assms(1) by simp
  qed
  from assms(2) have n: "xs \<noteq> []" by (auto simp: median_unfold split: if_splits)
  then have n0: "0 < length xs" by simp
  show ?thesis
  proof (cases "odd (length xs)")
    case True
    with assms(2) n have "m = sort xs ! (length xs div 2)" by (simp add: median_unfold)
    moreover have "length xs div 2 < length xs" using n0 by simp
    ultimately show ?thesis using el by simp
  next
    case False
    with assms(2) n have m: "m = (sort xs ! (length xs div 2 - 1) + sort xs ! (length xs div 2)) / 2"
      by (simp add: median_unfold)
    have "length xs div 2 < length xs" and "length xs div 2 - 1 < length xs" using n0 by arith+
    then have "c \<le> sort xs ! (length xs div 2)" and "c \<le> sort xs ! (length xs div 2 - 1)"
      using el by blast+
    with m show ?thesis by simp
  qed
qed

lemma rolling_median_nonneg:
  assumes "(k, x) \<in> set (rolling_median w s)"
  shows "0 \<le> fillna0 x"
proof (cases x)
  case None
  then show ?thesis by (simp add: fillna0_def)
next
  case (Some m)
  from assms obtain i where "x = median (map (real \<circ> snd) (drop (Suc i - w) (take (Suc i) s)))"
    by (auto simp: rolling_median_def)
  with Some have "median (map (real \<circ> snd) (drop (Suc i - w) (take (Suc i) s))) = Some m"
    by simp
  then have "0 \<le> m" by (rule median_lower_bound[rotated]) auto
  with Some show ?thesis by (simp add: fillna0_def)
qed

lemma dup_baseline_nonneg: "(k, b) \<in> set (dup_baseline df) \<Longrightarrow> 0 \<le> b"
  using rolling_median_nonneg by (auto simp: dup_baseline_def)

lemma score_uniqueness_unit:
  assumes "(k, v) \<in> set (score_uniqueness df)"
  shows "0 \<le> v \<and> v \<le> 1"
proof -
  from assms obtain c k' b where z: "((k, c), (k', b)) \<in> set (zip (dup_count df) (dup_baseline df))"
    and v: "v = exp (- (real c / (b + 1)))"
    by (auto simp: score_uniqueness_def)
  from z have "(k', b) \<in> set (dup_baseline df)" by (rule set_zip_rightD)
  then have "0 \<le> b" by (rule dup_baseline_nonneg)
  then have "0 \<le> real c / (b + 1)" by simp
  with v show ?thesis by simp
qed

text \<open>
  C4. On every row of the output, \<open>trust_score\<close> is 100 times the weighted sum of the five
  dimension scores with the weights 0.30, 0.20, 0.20, 0.15 and 0.15; it lies in [0, 100],
  and each of the five scores lies in [0, 1].
\<close>

theorem trust_score_weighted_bounded:
  assumes "quality_checks fo df = Inr rows" and "r \<in> set rows"
  shows "q_trust_score r =
           100 * (0.30 * q_score_completeness r + 0.20 * q_score_schema r +
                  0.20 * q_score_uniqueness r + 0.15 * q_score_volume r +
                  0.15 * q_score_validity r) \<and>
         0 \<le> q_trust_score r \<and> q_trust_score r \<le> 100 \<and>
         0 \<le> q_score_completeness r \<and> q_score_completeness r \<le> 1 \<and>
         0 \<le> q_score_schema r \<and> q_score_schema r \<le> 1 \<and>
         0 \<le> q_score_uniqueness r \<and> q_score_uniqueness r \<le> 1 \<and>
         0 \<le> q_score_volume r \<and> q_score_volume r \<le> 1 \<and>
         0 \<le> q_score_validity r \<and> q_score_validity r \<le> 1"
proof -
  from assms have r: "r = q_row fo df (q_date r)" by (rule quality_checks_row)
  define d where "d = q_date r"
  define c where "c = column0 (score_completeness df) d"
  define s where "s = column0 (score_schema df) d"
  define u where "u = column0 (score_uniqueness df) d"
  define v where "v = column0 (score_volume fo df) d"
  define va where "va = column0 (score_validity df) d"
  have c: "0 \<le> c \<and> c \<le> 1" unfolding c_def
    by (rule column0_unit_interval) (rule score_completeness_unit)
  have s: "0 \<le> s \<and> s \<le> 1" unfolding s_def
    by (rule column0_unit_interval) (rule score_schema_unit)
  have u: "0 \<le> u \<and> u \<le> 1" unfolding u_def
    by (rule column0_unit_interval) (rule score_uniqueness_unit)
  have v: "0 \<le> v \<and> v \<le> 1" unfolding v_def
    by (rule column0_unit_interval) (rule score_volume_unit)
  have va: "0 \<le> va \<and> va \<le> 1" unfolding va_def
    by (rule column0_unit_interval) (rule score_validity_unit)
  have sel: "q_score_completeness r = c" "q_score_schema r = s" "q_score_uniqueness r = u"
    "q_score_volume r = v" "q_score_validity r = va"
    "q_trust_score r = trust_score c s u v va"
    unfolding c_def s_def u_def v_def va_def d_def
    by (subst r, simp add: q_row_simps q_row_trust_score)+
  have t: "trust_score c s u v va = 100 * (0.30 * c + 0.20 * s + 0.20 * u + 0.15 * v + 0.15 * va)"
    by (simp add: trust_score_def)
  have "0 \<le> 100 * (0.30 * c + 0.20 * s + 0.20 * u + 0.15 * v + 0.15 * va)"
    using c s u v va by simp
  moreover have "100 * (0.30 * c + 0.20 * s + 0.20 * u + 0.15 * v + 0.15 * va) \<le> 100"
    using c s u v va by simp
  ultimately show ?thesis using c s u v va t by (simp only: sel)
qed

text \<open>The theorem at day 0 of \<open>ex_gap\<close>: completeness and schema are 1, the other scores
  are 0, and the trust score is 50.\<close>

theorem trust_score_weighted_bounded_witness:
  "quality_checks exact_ops ex_gap = Inr [ex_gap_row0, ex_gap_row1, ex_gap_row2] \<and>
   ex_gap_row0 \<in> set [ex_gap_row0, ex_gap_row1, ex_gap_row2] \<and>
   q_trust_score ex_gap_row0 = 100 * (0.30 * 1 + 0.20 * 1 + 0.20 * 0 + 0.15 * 0 + 0.15 * 0) \<and>
   0 \<le> q_trust_score ex_gap_row0 \<and> q_trust_score ex_gap_row0 \<le> 100"
proof -
  have mem: "ex_gap_row0 \<in> set [ex_gap_row0, ex_gap_row1, ex_gap_row2]" by simp
  have "q_score_completeness ex_gap_row0 = 1" "q_score_schema ex_gap_row0 = 1"
    "q_score_uniqueness ex_gap_row0 = 0" "q_score_volume ex_gap_row0 = 0"
    "q_score_validity ex_gap_row0 = 0"
    by (simp_all add: ex_gap_row0_def)
  with trust_score_weighted_bounded[OF quality_checks_ex_gap mem]
  show ?thesis using quality_checks_ex_gap by simp
qed

subsection \<open>Renaming purchase events\<close>

lemma groupby_size_dates:
  "groupby_size rows =
     map (\<lambda>d. (d, length (filter (\<lambda>x. x = d) (map date rows)))) (sort (remdups (map date rows)))"
  by (simp add: groupby_size_def filter_map comp_def)

lemma groupby_size_cong:
  "map date rows = map date rows' \<Longrightarrow> groupby_size rows = groupby_size rows'"
  by (simp add: groupby_size_dates)

lemma date_rename: "date (e\<lparr> event_name := n \<rparr>) = date e"
  by (simp add: date_def)

lemma map_date_rename_purchase: "map date (rename_purchase sel rows) = map date rows"
  by (simp add: rename_purchase_def date_rename comp_def)

lemma purch_rename_purchase: "purch (rename_purchase sel df) = rename_purchase sel (purch df)"
  by (induction df) (simp_all add: purch_def rename_purchase_def)

lemma purchase_events_rename_purchase:
  "purchase_events (rename_purchase sel df) = purchase_events df"
  unfolding purchase_events_def purch_rename_purchase
  by (rule groupby_size_cong) (rule map_date_rename_purchase)

lemma score_completeness_rename_purchase:
  "score_completeness (rename_purchase sel df) = score_completeness df"
  by (simp add: score_completeness_def baseline_purchase_def purchase_events_rename_purchase)

lemma date_range_rename_purchase:
  "date_range (date_min (rename_purchase sel df)) (date_max (rename_purchase sel df)) =
   date_range (date_min df) (date_max df)"
  by (simp add: date_min_def date_max_def map_date_rename_purchase)

lemma q_purchase_events_count:
  "q_purchase_events (q_row fo df d) =
     length (filter (\<lambda>e. date e = d \<and>
        (event_name e = ''purchase'' \<or> event_name e = ''in_app_purchase'')) df)"
proof -
  have "filter (\<lambda>e. date e = d) (purch df) =
        filter (\<lambda>e. date e = d \<and>
          (event_name e = ''purchase'' \<or> event_name e = ''in_app_purchase'')) df"
    by (simp add: purch_def conj_commute)
  then show ?thesis
    by (simp add: q_row_simps purchase_events_def column0_groupby_size)
qed

text \<open>
  C10. The \<open>purchase_events\<close> count of a day counts the events named \<open>purchase\<close> and the
  events named \<open>in_app_purchase\<close> together; hence renaming any selection of \<open>purchase\<close>
  events (those of one day, for instance) to \<open>in_app_purchase\<close> leaves the dates, the
  \<open>purchase_events\<close> column and the \<open>score_completeness\<close> column of the output unchanged.
\<close>

theorem purchase_events_count_both_names:
  assumes "quality_checks fo df = Inr rows"
  shows "(\<forall>r\<in>set rows. q_purchase_events r =
            length (filter (\<lambda>e. date e = q_date r \<and>
              (event_name e = ''purchase'' \<or> event_name e = ''in_app_purchase'')) df)) \<and>
         (\<exists>rows'. quality_checks fo (rename_purchase sel df) = Inr rows' \<and>
            map q_date rows' = map q_date rows \<and>
            map q_purchase_events rows' = map q_purchase_events rows \<and>
            map q_score_completeness rows' = map q_score_completeness rows)"
proof
  show "\<forall>r\<in>set rows. q_purchase_events r =
            length (filter (\<lambda>e. date e = q_date r \<and>
              (event_name e = ''purchase'' \<or> event_name e = ''in_app_purchase'')) df)"
  proof
    fix r assume "r \<in> set rows"
    with assms have "r = q_row fo df (q_date r)" by (rule quality_checks_row)
    then show "q_purchase_events r =
            length (filter (\<lambda>e. date e = q_date r \<and>
              (event_name e = ''purchase'' \<or> event_name e = ''in_app_purchase'')) df)"
      using q_purchase_events_count[of fo df "q_date r"] by simp
  qed
next
  let ?df' = "rename_purchase sel df"
  from assms obtain days where days: "date_range (date_min df) (date_max df) = Inr days"
    and rows: "rows = map (q_row fo df) days"
    by (auto simp: quality_checks_def split: sum.splits)
  have "quality_checks fo ?df' = Inr (map (q_row fo ?df') days)"
    by (simp add: quality_checks_def date_range_rename_purchase days)
  moreover have "map q_date (map (q_row fo ?df') days) = map q_date rows"
    by (simp add: rows q_row_simps comp_def)
  moreover have "map q_purchase_events (map (q_row fo ?df') days) = map q_purchase_events rows"
    by (simp add: rows q_row_simps comp_def purchase_events_rename_purchase)
  moreover have "map q_score_completeness (map (q_row fo ?df') days) = map q_score_completeness rows"
    by (simp add: rows q_row_simps comp_def score_completeness_rename_purchase)
  ultimately show "\<exists>rows'. quality_checks fo ?df' = Inr rows' \<and>
            map q_date rows' = map q_date rows \<and>
            map q_purchase_events rows' = map q_purchase_events rows \<and>
            map q_score_completeness rows' = map q_score_completeness rows"
    by blast
qed

text \<open>The theorem at \<open>ex_gap\<close>, with the purchase of day 0 renamed.\<close>

theorem purchase_events_count_both_names_witness:
  "quality_checks exact_ops ex_gap = Inr [ex_gap_row0, ex_gap_row1, ex_gap_row2] \<and>
   rename_purchase (\<lambda>e. date e = 0) ex_gap =
     [\<lparr> user_id = 1, event_ts = 0, event_name = ''in_app_purchase'', amount = Some 5 \<rparr>,
      \<lparr> user_id = 2, event_ts = 2 * 86400000000000, event_name = ''in_app_purchase'',
        amount = Some (- 5) \<rparr>] \<and>
   (\<exists>rows'. quality_checks exact_ops (rename_purchase (\<lambda>e. date e = 0) ex_gap) = Inr rows' \<and>
      map q_date rows' = [0, 1, 2] \<and>
      map q_purchase_events rows' = [1, 0, 1] \<and>
      map q_score_completeness rows' = [1, 0, 1]) \<and>
   q_purchase_events ex_gap_row2 =
     length (filter (\<lambda>e. date e = 2 \<and>
       (event_name e = ''purchase'' \<or> event_name e = ''in_app_purchase'')) ex_gap)"
proof -
  have ren: "rename_purchase (\<lambda>e. date e = 0) ex_gap =
     [\<lparr> user_id = 1, event_ts = 0, event_name = ''in_app_purchase'', amount = Some 5 \<rparr>,
      \<lparr> user_id = 2, event_ts = 2 * 86400000000000, event_name = ''in_app_purchase'',
        amount = Some (- 5) \<rparr>]"
    by (simp add: rename_purchase_def ex_gap_def date_def ns_per_day_def)
  have cols: "map q_date [ex_gap_row0, ex_gap_row1, ex_gap_row2] = [0, 1, 2]"
    "map q_purchase_events [ex_gap_row0, ex_gap_row1, ex_gap_row2] = [1, 0, 1]"
    "map q_score_completeness [ex_gap_row0, ex_gap_row1, ex_gap_row2] = [1, 0, 1]"
    by (simp_all add: ex_gap_row0_def ex_gap_row1_def ex_gap_row2_def)
  have r2: "ex_gap_row2 \<in> set [ex_gap_row0, ex_gap_row1, ex_gap_row2]" "q_date ex_gap_row2 = 2"
    by (simp_all add: ex_gap_row2_def)
  note t = purchase_events_count_both_names[OF quality_checks_ex_gap, of "\<lambda>e. date e = 0"]
  from t obtain rows'
    where "quality_checks exact_ops (rename_purchase (\<lambda>e. date e = 0) ex_gap) = Inr rows'"
      and "map q_date rows' = map q_date [ex_gap_row0, ex_gap_row1, ex_gap_row2]"
      and "map q_purchase_events rows' = map q_purchase_events [ex_gap_row0, ex_gap_row1, ex_gap_row2]"
      and "map q_score_completeness rows' =
           map q_score_completeness [ex_gap_row0, ex_gap_row1, ex_gap_row2]"
    by blast
  then have ex: "\<exists>rows'. quality_checks exact_ops (rename_purchase (\<lambda>e. date e = 0) ex_gap) = Inr rows' \<and>
      map q_date rows' = [0, 1, 2] \<and>
      map q_purchase_events rows' = [1, 0, 1] \<and>
      map q_score_completeness rows' = [1, 0, 1]"
    unfolding cols by - (rule exI[of _ rows'], simp)
  from t r2(1) have "q_purchase_events ex_gap_row2 =
     length (filter (\<lambda>e. date e = q_date ex_gap_row2 \<and>
       (event_name e = ''purchase'' \<or> event_name e = ''in_app_purchase'')) ex_gap)"
    by blast
  then have c: "q_purchase_events ex_gap_row2 =
     length (filter (\<lambda>e. date e = 2 \<and>
       (event_name e = ''purchase'' \<or> event_name e = ''in_app_purchase'')) ex_gap)"
    unfolding r2(2) .
  show ?thesis
    by (intro conjI) (rule quality_checks_ex_gap, rule ren, rule ex, rule c)
qed

subsection \<open>Schema consistency\<close>

lemma schema_drift_flag_index:
  "set (map fst (schema_drift_flag df)) =
     date ` set (filter (\<lambda>e. event_name e = ''in_app_purchase'') df) \<union>
     date ` set (filter (\<lambda>e. event_name e = ''purchase'') df)"
proof -
  have "map fst (schema_drift_flag df) =
          sort (remdups (map fst (has_iap df) @ map fst (has_purchase df)))"
    by (simp add: schema_drift_flag_def series_and_def series_eq_def comp_def case_prod_unfold)
  moreover have "map fst (has_iap df) =
      map fst (groupby_size (filter (\<lambda>e. event_name e = ''in_app_purchase'') df))"
    by (simp add: has_iap_def comp_def case_prod_unfold)
  moreover have "map fst (has_purchase df) =
      map fst (groupby_size (filter (\<lambda>e. event_name e = ''purchase'') df))"
    by (simp add: has_purchase_def comp_def case_prod_unfold)
  ultimately show ?thesis by (simp add: groupby_size_index)
qed

lemma map_of_score_schema:
  "map_of (score_schema df) d =
     (if d \<in> set (map fst (schema_drift_flag df)) then Some 1 else None)"
proof (cases "map_of (schema_drift_flag df) d")
  case None
  then have "d \<notin> set (map fst (schema_drift_flag df))"
    by (simp add: map_of_eq_None_iff)
  with None show ?thesis by (simp add: score_schema_def map_of_map_values)
next
  case (Some f)
  then have mem: "(d, f) \<in> set (schema_drift_flag df)" by (rule map_of_SomeD)
  then have "f = 0" by (rule schema_drift_flag_values)
  moreover from mem have "d \<in> set (map fst (schema_drift_flag df))" by force
  ultimately show ?thesis using Some by (simp add: score_schema_def map_of_map_values)
qed

text \<open>
  C3 at an input whose only event is an \<open>in_app_purchase\<close>: the day contains an
  \<open>in_app_purchase\<close> event and zero \<open>purchase\<close> events, yet \<open>schema_drift_flag\<close> is 0 and
  \<open>score_schema\<close> is 1 (the claim says 1 and 0.60).
\<close>

theorem schema_drift_day_not_flagged:
  "quality_checks fo ex_drift =
   Inr [\<lparr> q_date = 0, q_purchase_events = 1, q_session_events = 0, q_duplicate_events = 0,
          q_schema_drift_flag = 0, q_volume_anomaly_flag = 0, q_neg_amount_events = 0,
          q_score_completeness = 1, q_score_schema = 1, q_score_uniqueness = 0,
          q_score_volume = 0, q_score_validity = 0, q_trust_score = 50,
          q_reason = ''traffic_spike_possible_bots, invalid_amount_values'' \<rparr>]"
  by (simp add: ex_drift_def quality_checks_unfold)

text \<open>
  The flag is 0 on every row of every output: \<open>has_purchase == 0\<close> is false on every date
  of \<open>has_purchase\<close>, whose entries are all 1, and missing, hence false after the
  alignment, on every other date. So \<open>score_schema\<close> is 1 on a day with a \<open>purchase\<close> or
  an \<open>in_app_purchase\<close> event, and the fill value 0 on a day with neither.
\<close>

lemma schema_drift_flag_never_set:
  assumes "quality_checks fo df = Inr rows" and "r \<in> set rows"
  shows "q_schema_drift_flag r = 0"
proof -
  from assms have r: "r = q_row fo df (q_date r)" by (rule quality_checks_row)
  show ?thesis by (subst r) (simp add: q_row_simps column0_schema_drift_flag)
qed

lemma score_schema_values:
  assumes "quality_checks fo df = Inr rows" and "r \<in> set rows"
  shows "q_score_schema r =
           (if \<exists>e\<in>set df. date e = q_date r \<and>
                 (event_name e = ''purchase'' \<or> event_name e = ''in_app_purchase'')
            then 1 else 0)"
proof -
  from assms have r: "r = q_row fo df (q_date r)" by (rule quality_checks_row)
  have "q_score_schema r = column0 (score_schema df) (q_date r)"
    by (subst r) (simp add: q_row_simps)
  moreover have "q_date r \<in> set (map fst (schema_drift_flag df)) \<longleftrightarrow>
      (\<exists>e\<in>set df. date e = q_date r \<and>
         (event_name e = ''purchase'' \<or> event_name e = ''in_app_purchase''))"
    unfolding schema_drift_flag_index by force
  ultimately show ?thesis by (simp add: column0_def map_of_score_schema)
qed

subsection \<open>Volume anomaly\<close>

lemma sessions_series:
  "sessions df =
     map (\<lambda>d. (d, session_count df d))
       (sort (remdups (map date (filter (\<lambda>e. event_name e = ''session_start'') df))))"
  by (simp add: sessions_def groupby_size_def session_count_def conj_commute)

lemma sessions_values: "map (real \<circ> snd) (sessions df) = session_population df"
  by (simp add: sessions_series session_population_def comp_def)

lemma z_score_sessions:
  "z_score fo df = map (\<lambda>(d, n). (d, float_z fo df d)) (sessions df)"
  unfolding z_score_def Let_def sessions_values float_z_def
  by (simp add: sessions_series)

lemma map_of_sessions:
  "map_of (sessions df) d =
     (if 0 < session_count df d then Some (session_count df d) else None)"
proof -
  have "d \<in> date ` set (filter (\<lambda>e. event_name e = ''session_start'') df) \<longleftrightarrow>
        0 < session_count df d"
    by (auto simp: session_count_def filter_empty_conv)
  moreover have "length (filter (\<lambda>e. date e = d) (filter (\<lambda>e. event_name e = ''session_start'') df)) =
        session_count df d"
    by (simp add: session_count_def conj_commute)
  ultimately show ?thesis by (simp add: sessions_def map_of_groupby_size)
qed

lemma map_of_map_keyed:
  "map_of (map (\<lambda>(d, v). (d, f d)) s) d = map_option (\<lambda>_. f d) (map_of s d)"
  by (induction s) auto

lemma map_of_volume_anomaly_flag:
  "map_of (volume_anomaly_flag fo df) d =
     (if 0 < session_count df d
      then Some (if (case float_z fo df d of None \<Rightarrow> False | Some x \<Rightarrow> \<bar>x\<bar> > double_2_8)
                 then 1 else 0)
      else None)"
proof -
  have "volume_anomaly_flag fo df =
          map (\<lambda>(d, n). (d, if (case float_z fo df d of None \<Rightarrow> False | Some x \<Rightarrow> \<bar>x\<bar> > double_2_8)
                            then 1 else 0)) (sessions df)"
    by (simp add: volume_anomaly_flag_def z_score_sessions comp_def case_prod_unfold)
  then show ?thesis by (simp add: map_of_map_keyed map_of_sessions)
qed

lemma map_of_score_volume:
  "map_of (score_volume fo df) d =
     (if 0 < session_count df d
      then Some (if (case float_z fo df d of None \<Rightarrow> False | Some x \<Rightarrow> \<bar>x\<bar> > double_2_8)
                 then 0.55 else 1.00)
      else None)"
  by (simp add: score_volume_def map_of_map_values map_of_volume_anomaly_flag)

lemma double_2_8_below: "double_2_8 < 2.8"
  by (simp add: double_2_8_def)

text \<open>Without rounding, the computed z-score is the exact one.\<close>

lemma float_z_exact:
  assumes "session_population df \<noteq> []"
  shows "float_z exact_ops df d = Some (session_z df d)"
  using assms
  by (simp add: float_z_def exact_ops_def session_z_def session_std_def session_mean_def
      nan_op_def Let_def)

text \<open>
  C6, as amended. The mean and the population standard deviation of the volume score are
  taken over the days that have at least one \<open>session_start\<close> event (the standard
  deviation replaced by 1.0 when it is 0), and the z-score
  \<open>z(d) = (session_events(d) - mean) / std\<close> is computed in float64. On every row of the output
  whose day has such an event, \<open>volume_anomaly_flag\<close> is 1 iff the computed \<open>|z(d)|\<close> is
  greater than the double nearest to 2.8, and \<open>score_volume\<close> is 0.55 when the flag is 1 and
  1.00 when it is 0. Hence, when the computed z-score is within \<open>\<delta>\<close> of the exact one:
  the day is flagged and scores 0.55 if the exact \<open>|z(d)|\<close> is greater than \<open>2.8 + \<delta>\<close>, and is
  not flagged and scores 1.00 if the exact \<open>|z(d)| + \<delta>\<close> is at most that double; in
  between, the outcome depends on the rounding.
\<close>

theorem score_volume_over_session_days:
  assumes "quality_checks fo df = Inr rows" and "r \<in> set rows"
    and "0 < q_session_events r"
    and "float_z fo df (q_date r) = Some z"
    and "\<bar>z - session_z df (q_date r)\<bar> \<le> \<delta>"
  shows "q_session_events r = session_count df (q_date r) \<and>
         q_volume_anomaly_flag r = (if \<bar>z\<bar> > double_2_8 then 1 else 0) \<and>
         q_score_volume r = (if \<bar>z\<bar> > double_2_8 then 0.55 else 1.00) \<and>
         (2.8 + \<delta> < \<bar>session_z df (q_date r)\<bar> \<longrightarrow>
            q_volume_anomaly_flag r = 1 \<and> q_score_volume r = 0.55) \<and>
         (\<bar>session_z df (q_date r)\<bar> + \<delta> \<le> double_2_8 \<longrightarrow>
            q_volume_anomaly_flag r = 0 \<and> q_score_volume r = 1.00)"
proof -
  from assms(1,2) have r: "r = q_row fo df (q_date r)" by (rule quality_checks_row)
  have cols: "q_session_events r = column0 (sessions df) (q_date r)"
    "q_volume_anomaly_flag r = column0 (volume_anomaly_flag fo df) (q_date r)"
    "q_score_volume r = column0 (score_volume fo df) (q_date r)"
    by (subst r, simp add: q_row_simps)+
  from cols(1) have cnt: "q_session_events r = session_count df (q_date r)"
    by (simp add: column0_def map_of_sessions)
  with assms(3) have pos: "0 < session_count df (q_date r)" by simp
  have flag: "q_volume_anomaly_flag r = (if \<bar>z\<bar> > double_2_8 then 1 else 0)"
    using pos assms(4) by (simp add: cols(2) column0_def map_of_volume_anomaly_flag)
  have score: "q_score_volume r = (if \<bar>z\<bar> > double_2_8 then 0.55 else 1.00)"
    using pos assms(4) by (simp add: cols(3) column0_def map_of_score_volume)
  have above: "\<bar>z\<bar> > double_2_8" if "2.8 + \<delta> < \<bar>session_z df (q_date r)\<bar>"
    using that assms(5) double_2_8_below by linarith
  have below: "\<not> \<bar>z\<bar> > double_2_8" if "\<bar>session_z df (q_date r)\<bar> + \<delta> \<le> double_2_8"
    using that assms(5) by linarith
  from cnt flag score above below show ?thesis by simp
qed

text \<open>The theorem at \<open>ex_spike\<close>, without rounding (\<open>\<delta> = 0\<close>): the mean over the ten session
  days is 1.1 and the standard deviation 0.3, so day 9 with its two sessions has
  \<open>z = 3\<close>, is flagged and scores 0.55, and day 0 has \<open>z = - 1/3\<close>, is not flagged and
  scores 1.\<close>

lemma ex_spike_days: "date ` set ex_spike = {0, 1, 2, 3, 4, 5, 6, 7, 8, 9}"
  by (simp add: ex_spike_def date_def ns_per_day_def)

lemma quality_checks_ex_spike:
  "quality_checks exact_ops ex_spike =
   Inr (map (q_row exact_ops ex_spike) [0, 1, 2, 3, 4, 5, 6, 7, 8, 9])"
proof -
  have "ex_spike \<noteq> []" by (simp add: ex_spike_def)
  then have "quality_checks exact_ops ex_spike =
      Inr (map (q_row exact_ops ex_spike) [Min (date ` set ex_spike)..Max (date ` set ex_spike)])"
    by (rule quality_checks_nonempty)
  moreover have "[Min (date ` set ex_spike)..Max (date ` set ex_spike)] =
      [0, 1, 2, 3, 4, 5, 6, 7, 8, 9]"
    by (simp add: ex_spike_days upto.simps)
  ultimately show ?thesis by simp
qed

lemma ex_spike_session_count:
  "map (session_count ex_spike) [0, 1, 2, 3, 4, 5, 6, 7, 8, 9] = [1, 1, 1, 1, 1, 1, 1, 1, 1, 2]"
  by (simp add: session_count_def ex_spike_def date_def ns_per_day_def)

lemma ex_spike_population: "session_population ex_spike = [1, 1, 1, 1, 1, 1, 1, 1, 1, 2]"
proof -
  have "sort (remdups (map date (filter (\<lambda>e. event_name e = ''session_start'') ex_spike))) =
        [0, 1, 2, 3, 4, 5, 6, 7, 8, 9]"
    by (simp add: ex_spike_def date_def ns_per_day_def)
  then show ?thesis using ex_spike_session_count by (simp add: session_population_def)
qed

lemma ex_spike_session_mean: "session_mean ex_spike = 11 / 10"
  by (simp add: session_mean_def ex_spike_population)

lemma sqrt_9_100: "sqrt (9 / 100) = 3 / 10"
  by (rule real_sqrt_unique) (simp_all add: power2_eq_square)

lemma ex_spike_session_std: "session_std ex_spike = 3 / 10"
proof -
  have "sum_list (map (\<lambda>x. (x - session_mean ex_spike)\<^sup>2) (session_population ex_spike))
          / real (length (session_population ex_spike)) = 9 / 100"
    by (simp add: ex_spike_session_mean ex_spike_population power2_eq_square)
  then show ?thesis unfolding session_std_def by (simp only: sqrt_9_100)
qed

lemma ex_spike_session_z: "session_z ex_spike 9 = 3" "session_z ex_spike 0 = - (1 / 3)"
  using ex_spike_session_count
  by (simp_all add: session_z_def ex_spike_session_mean ex_spike_session_std)

lemma ex_spike_float_z:
  "float_z exact_ops ex_spike 9 = Some 3" "float_z exact_ops ex_spike 0 = Some (- (1 / 3))"
  by (simp_all add: float_z_exact ex_spike_population ex_spike_session_z)

theorem score_volume_over_session_days_witness:
  "quality_checks exact_ops ex_spike =
     Inr (map (q_row exact_ops ex_spike) [0, 1, 2, 3, 4, 5, 6, 7, 8, 9]) \<and>
   q_row exact_ops ex_spike 9 \<in> set (map (q_row exact_ops ex_spike) [0, 1, 2, 3, 4, 5, 6, 7, 8, 9]) \<and>
   q_row exact_ops ex_spike 0 \<in> set (map (q_row exact_ops ex_spike) [0, 1, 2, 3, 4, 5, 6, 7, 8, 9]) \<and>
   session_mean ex_spike = 11 / 10 \<and> session_std ex_spike = 3 / 10 \<and>
   q_session_events (q_row exact_ops ex_spike 9) = 2 \<and>
   float_z exact_ops ex_spike 9 = Some 3 \<and>
   \<bar>3 - session_z ex_spike 9\<bar> \<le> 0 \<and>
   2.8 + 0 < \<bar>session_z ex_spike 9\<bar> \<and>
   q_volume_anomaly_flag (q_row exact_ops ex_spike 9) = 1 \<and>
   q_score_volume (q_row exact_ops ex_spike 9) = 0.55 \<and>
   q_session_events (q_row exact_ops ex_spike 0) = 1 \<and>
   float_z exact_ops ex_spike 0 = Some (- (1 / 3)) \<and>
   \<bar>- (1 / 3) - session_z ex_spike 0\<bar> \<le> 0 \<and>
   \<bar>session_z ex_spike 0\<bar> + 0 \<le> double_2_8 \<and>
   q_volume_anomaly_flag (q_row exact_ops ex_spike 0) = 0 \<and>
   q_score_volume (q_row exact_ops ex_spike 0) = 1.00"
proof -
  have m9: "q_row exact_ops ex_spike 9 \<in>
      set (map (q_row exact_ops ex_spike) [0, 1, 2, 3, 4, 5, 6, 7, 8, 9])"
    and m0: "q_row exact_ops ex_spike 0 \<in>
      set (map (q_row exact_ops ex_spike) [0, 1, 2, 3, 4, 5, 6, 7, 8, 9])"
    by simp_all
  have d9: "q_date (q_row exact_ops ex_spike 9) = 9"
    and d0: "q_date (q_row exact_ops ex_spike 0) = 0"
    by (simp_all add: q_row_simps)
  have c: "session_count ex_spike 9 = 2" "session_count ex_spike 0 = 1"
    using ex_spike_session_count by simp_all
  have s9: "q_session_events (q_row exact_ops ex_spike 9) = 2"
    and s0: "q_session_events (q_row exact_ops ex_spike 0) = 1"
    by (simp_all add: q_row_simps column0_def map_of_sessions c)
  have p9: "0 < q_session_events (q_row exact_ops ex_spike 9)"
    and p0: "0 < q_session_events (q_row exact_ops ex_spike 0)"
    by (simp_all add: s9 s0)
  have f9: "float_z exact_ops ex_spike (q_date (q_row exact_ops ex_spike 9)) = Some 3"
    and f0: "float_z exact_ops ex_spike (q_date (q_row exact_ops ex_spike 0)) = Some (- (1 / 3))"
    by (simp_all add: d9 d0 ex_spike_float_z)
  have e9: "\<bar>3 - session_z ex_spike (q_date (q_row exact_ops ex_spike 9))\<bar> \<le> 0"
    and e0: "\<bar>- (1 / 3) - session_z ex_spike (q_date (q_row exact_ops ex_spike 0))\<bar> \<le> 0"
    by (simp_all add: d9 d0 ex_spike_session_z)
  have far: "2.8 + 0 < \<bar>session_z ex_spike 9\<bar>"
    and near: "\<bar>session_z ex_spike 0\<bar> + 0 \<le> double_2_8"
    by (simp_all add: ex_spike_session_z double_2_8_def)
  from score_volume_over_session_days[OF quality_checks_ex_spike m9 p9 f9 e9] far
  have r9: "q_volume_anomaly_flag (q_row exact_ops ex_spike 9) = 1 \<and>
            q_score_volume (q_row exact_ops ex_spike 9) = 0.55"
    by (simp add: d9)
  from score_volume_over_session_days[OF quality_checks_ex_spike m0 p0 f0 e0] near
  have r0: "q_volume_anomaly_flag (q_row exact_ops ex_spike 0) = 0 \<and>
            q_score_volume (q_row exact_ops ex_spike 0) = 1.00"
    by (simp add: d0)
  from e9 e0 have e9': "\<bar>3 - session_z ex_spike 9\<bar> \<le> 0"
    and e0': "\<bar>- (1 / 3) - session_z ex_spike 0\<bar> \<le> 0"
    by (simp_all add: d9 d0)
  from quality_checks_ex_spike m9 m0 ex_spike_session_mean ex_spike_session_std s9 s0
    ex_spike_float_z e9' e0' far near r9 r0
  show ?thesis by (simp only: simp_thms)
qed

text \<open>
  C6, as stated, is false. On \<open>ex_lone\<close> the range is the ten days 0 to 9 with the daily
  session counts 1, 0, ..., 0; mean and standard deviation over that whole range are 0.1
  and 0.3, so \<open>z(0) = 3\<close> and the claim flags day 0 and scores it 0.55. The code takes
  them over day 0 alone, the only day with a session, where they are 1 and 0 and no
  rounding occurs: the flag of day 0 is 0 and its score 1.
\<close>

lemma ex_lone_days: "date ` set ex_lone = {0, 9}"
  by (simp add: ex_lone_def date_def ns_per_day_def)

lemma quality_checks_ex_lone:
  "quality_checks exact_ops ex_lone =
   Inr (map (q_row exact_ops ex_lone) [0, 1, 2, 3, 4, 5, 6, 7, 8, 9])"
proof -
  have "ex_lone \<noteq> []" by (simp add: ex_lone_def)
  then have "quality_checks exact_ops ex_lone =
      Inr (map (q_row exact_ops ex_lone) [Min (date ` set ex_lone)..Max (date ` set ex_lone)])"
    by (rule quality_checks_nonempty)
  moreover have "[Min (date ` set ex_lone)..Max (date ` set ex_lone)] =
      [0, 1, 2, 3, 4, 5, 6, 7, 8, 9]"
    by (simp add: ex_lone_days upto.simps)
  ultimately show ?thesis by simp
qed

lemma ex_lone_sessions: "sessions ex_lone = [(0, 1)]"
  by (simp add: sessions_def groupby_size_def ex_lone_def date_def ns_per_day_def)

lemma ex_lone_volume_anomaly_flag: "volume_anomaly_flag exact_ops ex_lone = [(0, 0)]"
  by (simp add: volume_anomaly_flag_def z_score_def ex_lone_sessions exact_ops_def
      double_2_8_def nan_op_def Let_def)

lemma ex_lone_range_z:
  "range_z [(0, 1), (1, 0), (2, 0), (3, 0), (4, 0), (5, 0), (6, 0), (7, 0), (8, 0), (9, 0)] 0 = 3"
proof -
  let ?daily = "[(0, 1), (1, 0), (2, 0), (3, 0), (4, 0), (5, 0), (6, 0), (7, 0), (8, 0), (9, 0)]
                  :: nat series"
  have m: "range_mean ?daily = 1 / 10" by (simp add: range_mean_def)
  have "sum_list (map (\<lambda>(d, n). (real n - range_mean ?daily)\<^sup>2) ?daily) / real (length ?daily)
          = 9 / 100"
    unfolding m by (simp add: power2_eq_square)
  then have s: "range_std ?daily = 3 / 10"
    unfolding range_std_def by (simp only: sqrt_9_100)
  have "range_z ?daily 0 = (real (column0 ?daily 0) - 1 / 10) / (if (3 / 10 :: real) = 0 then 1 else 3 / 10)"
    unfolding range_z_def m s ..
  then show ?thesis by (simp add: column0_def)
qed

theorem score_volume_population_is_session_days:
  "quality_checks exact_ops ex_lone =
     Inr (map (q_row exact_ops ex_lone) [0, 1, 2, 3, 4, 5, 6, 7, 8, 9]) \<and>
   map (\<lambda>r. (q_date r, q_session_events r))
     (map (q_row exact_ops ex_lone) [0, 1, 2, 3, 4, 5, 6, 7, 8, 9]) =
     [(0, 1), (1, 0), (2, 0), (3, 0), (4, 0), (5, 0), (6, 0), (7, 0), (8, 0), (9, 0)] \<and>
   range_z [(0, 1), (1, 0), (2, 0), (3, 0), (4, 0), (5, 0), (6, 0), (7, 0), (8, 0), (9, 0)] 0 = 3 \<and>
   q_volume_anomaly_flag (q_row exact_ops ex_lone 0) = 0 \<and>
   q_score_volume (q_row exact_ops ex_lone 0) = 1"
proof -
  have "map (\<lambda>r. (q_date r, q_session_events r))
      (map (q_row exact_ops ex_lone) [0, 1, 2, 3, 4, 5, 6, 7, 8, 9]) =
     [(0, 1), (1, 0), (2, 0), (3, 0), (4, 0), (5, 0), (6, 0), (7, 0), (8, 0), (9, 0)]"
    by (simp add: q_row_simps ex_lone_sessions column0_def)
  moreover have "q_volume_anomaly_flag (q_row exact_ops ex_lone 0) = 0"
    by (simp add: q_row_simps ex_lone_volume_anomaly_flag column0_def)
  moreover have "q_score_volume (q_row exact_ops ex_lone 0) = 1"
    by (simp add: q_row_simps score_volume_def ex_lone_volume_anomaly_flag column0_def)
  ultimately show ?thesis using quality_checks_ex_lone ex_lone_range_z by (simp only: simp_thms)
qed

text \<open>
  A day without a \<open>session_start\<close> event has no entry in \<open>sessions\<close>; its flag and its
  \<open>score_volume\<close> are the fill value 0, whatever the rounding.
\<close>

lemma score_volume_without_sessions:
  assumes "quality_checks fo df = Inr rows" and "r \<in> set rows" and "q_session_events r = 0"
  shows "q_volume_anomaly_flag r = 0 \<and> q_score_volume r = 0"
proof -
  from assms(1,2) have r: "r = q_row fo df (q_date r)" by (rule quality_checks_row)
  have "q_session_events r = column0 (sessions df) (q_date r)"
    "q_volume_anomaly_flag r = column0 (volume_anomaly_flag fo df) (q_date r)"
    "q_score_volume r = column0 (score_volume fo df) (q_date r)"
    by (subst r, simp add: q_row_simps)+
  with assms(3) show ?thesis
    by (simp add: column0_def map_of_sessions map_of_volume_anomaly_flag map_of_score_volume
        split: if_splits)
qed

subsection \<open>Rolling windows\<close>

lemma sorted_distinct_take:
  fixes ks :: "int list"
  assumes "sorted ks" and "distinct ks" and "i < length ks"
  shows "filter (\<lambda>x. x \<le> ks ! i) ks = take (Suc i) ks"
proof -
  have low: "\<forall>x\<in>set (take (Suc i) ks). x \<le> ks ! i"
  proof
    fix x assume "x \<in> set (take (Suc i) ks)"
    then obtain j where "j < Suc i" and "j < length ks" and "x = ks ! j"
      by (auto simp: in_set_conv_nth)
    then show "x \<le> ks ! i" using assms(1,3) by (simp add: sorted_nth_mono)
  qed
  have high: "\<forall>x\<in>set (drop (Suc i) ks). \<not> x \<le> ks ! i"
  proof
    fix x assume "x \<in> set (drop (Suc i) ks)"
    then obtain j where "j < length ks - Suc i" and x: "x = ks ! (Suc i + j)"
      by (auto simp: in_set_conv_nth)
    then have j: "Suc i + j < length ks" by simp
    have "ks ! i \<le> ks ! (Suc i + j)" using assms(1) j by (simp add: sorted_nth_mono)
    moreover have "ks ! i \<noteq> ks ! (Suc i + j)"
      using assms(2,3) j by (simp add: nth_eq_iff_index_eq)
    ultimately show "\<not> x \<le> ks ! i" using x by simp
  qed
  have "filter (\<lambda>x. x \<le> ks ! i) ks =
        filter (\<lambda>x. x \<le> ks ! i) (take (Suc i) ks) @ filter (\<lambda>x. x \<le> ks ! i) (drop (Suc i) ks)"
    by (metis append_take_drop_id filter_append)
  also have "filter (\<lambda>x. x \<le> ks ! i) (take (Suc i) ks) = take (Suc i) ks"
    using low by (simp add: filter_id_conv)
  also have "filter (\<lambda>x. x \<le> ks ! i) (drop (Suc i) ks) = []"
    using high by (simp add: filter_empty_conv)
  finally show ?thesis by simp
qed

lemma groupby_size_count_on:
  "groupby_size rows = map (\<lambda>d. (d, count_on rows d)) (sort (remdups (map date rows)))"
  by (simp add: groupby_size_def count_on_def)

lemma rolling_window_recent:
  assumes "i < length (groupby_size rows)"
  shows "median (map (real \<circ> snd) (drop (Suc i - 7) (take (Suc i) (groupby_size rows)))) =
         recent_median rows (fst (groupby_size rows ! i))"
proof -
  let ?ks = "sort (remdups (map date rows))"
  from assms have i: "i < length ?ks" by (simp add: groupby_size_def)
  then have d: "fst (groupby_size rows ! i) = ?ks ! i"
    by (simp add: groupby_size_def)
  have "filter (\<lambda>x. x \<le> ?ks ! i) ?ks = take (Suc i) ?ks"
    using i by (intro sorted_distinct_take) simp_all
  moreover have "length (take (Suc i) ?ks) = Suc i" using i by simp
  ultimately have "recent_days rows (?ks ! i) = drop (Suc i - 7) (take (Suc i) ?ks)"
    by (simp add: recent_days_def Let_def)
  moreover have "map (real \<circ> snd) (drop (Suc i - 7) (take (Suc i) (groupby_size rows))) =
        map (\<lambda>x. real (count_on rows x)) (drop (Suc i - 7) (take (Suc i) ?ks))"
    by (simp add: groupby_size_count_on drop_map take_map comp_def)
  ultimately show ?thesis by (simp add: recent_median_def d)
qed

lemma map_of_indexed:
  assumes "distinct (map fst s)" and "i < length s"
  shows "map_of (map (\<lambda>j. (fst (s ! j), g j)) [0..<length s]) (fst (s ! i)) = Some (g i)"
proof -
  have "map fst (map (\<lambda>j. (fst (s ! j), g j)) [0..<length s]) = map fst s"
    by (rule nth_equalityI) simp_all
  with assms(1) have "distinct (map fst (map (\<lambda>j. (fst (s ! j), g j)) [0..<length s]))"
    by simp
  moreover have "(fst (s ! i), g i) \<in> set (map (\<lambda>j. (fst (s ! j), g j)) [0..<length s])"
    using assms(2) by auto
  ultimately show ?thesis by (simp only: map_of_eq_Some_iff)
qed

lemma groupby_size_index_of:
  assumes "0 < count_on rows d"
  shows "\<exists>i<length (groupby_size rows). groupby_size rows ! i = (d, count_on rows d)"
proof -
  from assms have "d \<in> set (sort (remdups (map date rows)))"
    by (auto simp: count_on_def filter_empty_conv)
  then have "(d, count_on rows d) \<in> set (groupby_size rows)"
    by (simp add: groupby_size_count_on)
  then show ?thesis by (simp add: in_set_conv_nth)
qed

lemma median_defined:
  assumes "xs \<noteq> []"
  shows "\<exists>m. median xs = Some m"
proof (cases "odd (length xs)")
  case True
  with assms have "median xs = Some (sort xs ! (length xs div 2))"
    by (simp add: median_unfold)
  then show ?thesis by blast
next
  case False
  with assms have "median xs =
      Some ((sort xs ! (length xs div 2 - 1) + sort xs ! (length xs div 2)) / 2)"
    by (simp add: median_unfold)
  then show ?thesis by blast
qed

lemma recent_median_defined:
  assumes "0 < count_on rows d"
  shows "\<exists>b. recent_median rows d = Some b \<and> 1 \<le> b"
proof -
  let ?ks = "filter (\<lambda>x. x \<le> d) (sort (remdups (map date rows)))"
  from assms have "d \<in> set (sort (remdups (map date rows)))"
    by (auto simp: count_on_def filter_empty_conv)
  then have "d \<in> set ?ks" by simp
  then have "?ks \<noteq> []" by (metis empty_iff empty_set)
  then have "0 < length ?ks" by simp
  then have "length ?ks - 7 < length ?ks" by arith
  then have ne: "recent_days rows d \<noteq> []" by (simp add: recent_days_def Let_def)
  then have "map (\<lambda>x. real (count_on rows x)) (recent_days rows d) \<noteq> []" by simp
  then obtain b where b: "recent_median rows d = Some b"
    unfolding recent_median_def using median_defined by blast
  have "\<And>x. x \<in> set (recent_days rows d) \<Longrightarrow> 0 < count_on rows x"
  proof -
    fix x assume "x \<in> set (recent_days rows d)"
    then have "x \<in> set ?ks" by (auto simp: recent_days_def Let_def dest: in_set_dropD)
    then show "0 < count_on rows x" by (auto simp: count_on_def filter_empty_conv)
  qed
  then have "\<And>v. v \<in> set (map (\<lambda>x. real (count_on rows x)) (recent_days rows d)) \<Longrightarrow> 1 \<le> v"
    by (auto simp: Suc_le_eq)
  with b have "1 \<le> b" unfolding recent_median_def by (rule median_lower_bound[rotated])
  with b show ?thesis by blast
qed

subsection \<open>Completeness\<close>

lemma score_completeness_indexed:
  "score_completeness df =
     map (\<lambda>j. (fst (purchase_events df ! j),
               fillna0 (clip01 (nan_op (/) (Some (real (snd (purchase_events df ! j))))
                 (replace0 (median (map (real \<circ> snd)
                   (drop (Suc j - 7) (take (Suc j) (purchase_events df)))))))))) 
       [0..<length (purchase_events df)]"
  by (rule nth_equalityI)
    (simp_all add: score_completeness_def baseline_purchase_def rolling_median_def
      case_prod_unfold)

lemma map_of_score_completeness:
  assumes "0 < count_on (purch df) d"
  shows "map_of (score_completeness df) d =
           Some (fillna0 (clip01 (nan_op (/) (Some (real (count_on (purch df) d)))
                   (replace0 (recent_median (purch df) d)))))"
proof -
  from groupby_size_index_of[OF assms] obtain i
    where i: "i < length (purchase_events df)"
      and at: "purchase_events df ! i = (d, count_on (purch df) d)"
    by (auto simp: purchase_events_def)
  have dist: "distinct (map fst (purchase_events df))"
    by (simp add: purchase_events_def groupby_size_distinct)
  have win: "median (map (real \<circ> snd) (drop (Suc i - 7) (take (Suc i) (purchase_events df)))) =
             recent_median (purch df) d"
    using rolling_window_recent[of i "purch df"] i at by (simp add: purchase_events_def)
  define g where "g = (\<lambda>j. fillna0 (clip01 (nan_op (/)
                 (Some (real (snd (purchase_events df ! j))))
                 (replace0 (median (map (real \<circ> snd)
                   (drop (Suc j - 7) (take (Suc j) (purchase_events df)))))))))"
  have "score_completeness df =
          map (\<lambda>j. (fst (purchase_events df ! j), g j)) [0..<length (purchase_events df)]"
    unfolding g_def by (rule score_completeness_indexed)
  moreover have "map_of (map (\<lambda>j. (fst (purchase_events df ! j), g j))
                   [0..<length (purchase_events df)]) (fst (purchase_events df ! i)) = Some (g i)"
    using dist i by (rule map_of_indexed)
  moreover have "g i = fillna0 (clip01 (nan_op (/) (Some (real (count_on (purch df) d)))
                   (replace0 (recent_median (purch df) d))))"
    unfolding g_def by (simp only: at win snd_conv)
  ultimately show ?thesis by (simp only: at fst_conv)
qed

lemma score_completeness_absent:
  assumes "count_on (purch df) d = 0"
  shows "column0 (score_completeness df) d = 0"
proof -
  have "map fst (score_completeness df) = map fst (purchase_events df)"
    unfolding score_completeness_indexed by (rule nth_equalityI) simp_all
  then have "fst ` set (score_completeness df) = set (map fst (purchase_events df))"
    by (metis set_map)
  also have "\<dots> = date ` set (purch df)"
    by (simp add: purchase_events_def groupby_size_index)
  finally have "d \<notin> fst ` set (score_completeness df)"
    using assms by (auto simp: count_on_def filter_empty_conv)
  then show ?thesis by (rule column0_absent)
qed

text \<open>
  C5, as amended. On every row of the output whose day has at least one purchase-type
  event, \<open>score_completeness(d) = clamp(purchase_events(d) / baseline(d), 0, 1)\<close>, where
  \<open>baseline(d)\<close> is the median of \<open>purchase_events\<close> over the (up to) seven most recent
  days, ending at \<open>d\<close> inclusive, that have at least one purchase-type event (however
  many calendar days they span); this baseline is at least 1, never zero or undefined. On
  every row whose day has no purchase-type event, \<open>score_completeness\<close> is 0.
\<close>

theorem score_completeness_recent_purchase_days:
  assumes "quality_checks fo df = Inr rows" and "r \<in> set rows"
  shows "q_purchase_events r = count_on (purch df) (q_date r) \<and>
         (q_purchase_events r = 0 \<longrightarrow> q_score_completeness r = 0) \<and>
         (0 < q_purchase_events r \<longrightarrow>
            (\<exists>b. recent_median (purch df) (q_date r) = Some b \<and> 1 \<le> b \<and>
                 q_score_completeness r = min 1 (max 0 (real (q_purchase_events r) / b))))"
proof -
  from assms have r: "r = q_row fo df (q_date r)" by (rule quality_checks_row)
  let ?d = "q_date r"
  have pe: "q_purchase_events r = count_on (purch df) ?d"
    by (subst r) (simp add: q_row_simps purchase_events_def column0_groupby_size count_on_def)
  have sc: "q_score_completeness r = column0 (score_completeness df) ?d"
    by (subst r) (simp add: q_row_simps)
  have zero: "q_score_completeness r = 0" if "q_purchase_events r = 0"
    using that pe sc score_completeness_absent[of df ?d] by simp
  have pos: "\<exists>b. recent_median (purch df) ?d = Some b \<and> 1 \<le> b \<and>
                 q_score_completeness r = min 1 (max 0 (real (q_purchase_events r) / b))"
    if "0 < q_purchase_events r"
  proof -
    from that pe have c: "0 < count_on (purch df) ?d" by simp
    from recent_median_defined[OF c] obtain b
      where b: "recent_median (purch df) ?d = Some b" and b1: "1 \<le> b" by blast
    from b1 have "b \<noteq> 0" by simp
    with map_of_score_completeness[OF c] b
    have "map_of (score_completeness df) ?d =
            Some (min 1 (max 0 (real (count_on (purch df) ?d) / b)))"
      by (simp add: replace0_def nan_op_def clip01_def fillna0_def)
    then have "q_score_completeness r = min 1 (max 0 (real (q_purchase_events r) / b))"
      by (simp add: sc pe column0_def)
    with b b1 show ?thesis by blast
  qed
  from pe zero pos show ?thesis by blast
qed

lemma ex_sparse_days: "date ` set ex_sparse = {0, 7}"
  by (simp add: ex_sparse_def date_def ns_per_day_def)

lemma quality_checks_ex_sparse:
  "quality_checks exact_ops ex_sparse = Inr (map (q_row exact_ops ex_sparse) [0, 1, 2, 3, 4, 5, 6, 7])"
proof -
  have "ex_sparse \<noteq> []" by (simp add: ex_sparse_def)
  then have "quality_checks exact_ops ex_sparse =
      Inr (map (q_row exact_ops ex_sparse) [Min (date ` set ex_sparse)..Max (date ` set ex_sparse)])"
    by (rule quality_checks_nonempty)
  moreover have "[Min (date ` set ex_sparse)..Max (date ` set ex_sparse)] = [0, 1, 2, 3, 4, 5, 6, 7]"
    by (simp add: ex_sparse_days upto.simps)
  ultimately show ?thesis by simp
qed

lemma ex_sparse_purchase_events: "purchase_events ex_sparse = [(0, 3), (7, 1)]"
  by (simp add: purchase_events_def purch_def groupby_size_def ex_sparse_def date_def
      ns_per_day_def)

lemma ex_sparse_recent_days: "recent_days (purch ex_sparse) 7 = [0, 7]"
  by (simp add: recent_days_def purch_def ex_sparse_def date_def ns_per_day_def Let_def)

lemma ex_sparse_recent_median: "recent_median (purch ex_sparse) 7 = Some 2"
  by (simp add: recent_median_def ex_sparse_recent_days median_def Let_def)
     (simp add: count_on_def purch_def ex_sparse_def date_def ns_per_day_def)

text \<open>The theorem at \<open>ex_sparse\<close>: the window of day 7 holds the purchase days 0 and 7,
  the baseline is the median 2 of the counts 3 and 1, and the score is 1/2; day 3 has no
  purchase.\<close>

theorem score_completeness_recent_purchase_days_witness:
  "quality_checks exact_ops ex_sparse = Inr (map (q_row exact_ops ex_sparse) [0, 1, 2, 3, 4, 5, 6, 7]) \<and>
   q_row exact_ops ex_sparse 7 \<in> set (map (q_row exact_ops ex_sparse) [0, 1, 2, 3, 4, 5, 6, 7]) \<and>
   q_row exact_ops ex_sparse 3 \<in> set (map (q_row exact_ops ex_sparse) [0, 1, 2, 3, 4, 5, 6, 7]) \<and>
   q_purchase_events (q_row exact_ops ex_sparse 7) = 1 \<and>
   recent_days (purch ex_sparse) 7 = [0, 7] \<and>
   recent_median (purch ex_sparse) 7 = Some 2 \<and>
   q_score_completeness (q_row exact_ops ex_sparse 7) = 1 / 2 \<and>
   q_purchase_events (q_row exact_ops ex_sparse 3) = 0 \<and>
   q_score_completeness (q_row exact_ops ex_sparse 3) = 0"
proof -
  have m7: "q_row exact_ops ex_sparse 7 \<in> set (map (q_row exact_ops ex_sparse) [0, 1, 2, 3, 4, 5, 6, 7])"
    and m3: "q_row exact_ops ex_sparse 3 \<in> set (map (q_row exact_ops ex_sparse) [0, 1, 2, 3, 4, 5, 6, 7])"
    by simp_all
  have p7: "q_purchase_events (q_row exact_ops ex_sparse 7) = 1"
    and p3: "q_purchase_events (q_row exact_ops ex_sparse 3) = 0"
    by (simp_all add: q_row_simps ex_sparse_purchase_events column0_def)
  have d: "q_date (q_row exact_ops ex_sparse 7) = 7" by (simp add: q_row_simps)
  from score_completeness_recent_purchase_days[OF quality_checks_ex_sparse m7]
  have "0 < q_purchase_events (q_row exact_ops ex_sparse 7) \<longrightarrow>
          (\<exists>b. recent_median (purch ex_sparse) (q_date (q_row exact_ops ex_sparse 7)) = Some b \<and> 1 \<le> b \<and>
             q_score_completeness (q_row exact_ops ex_sparse 7) =
               min 1 (max 0 (real (q_purchase_events (q_row exact_ops ex_sparse 7)) / b)))"
    by blast
  with p7 obtain b where "recent_median (purch ex_sparse) (q_date (q_row exact_ops ex_sparse 7)) = Some b"
    and "q_score_completeness (q_row exact_ops ex_sparse 7) =
           min 1 (max 0 (real (q_purchase_events (q_row exact_ops ex_sparse 7)) / b))"
    by auto
  then have s7: "q_score_completeness (q_row exact_ops ex_sparse 7) = 1 / 2"
    by (simp add: d p7 ex_sparse_recent_median)
  from score_completeness_recent_purchase_days[OF quality_checks_ex_sparse m3] p3
  have s3: "q_score_completeness (q_row exact_ops ex_sparse 3) = 0" by simp
  from quality_checks_ex_sparse m7 m3 p7 p3 s7 s3 ex_sparse_recent_days ex_sparse_recent_median
  show ?thesis by (simp only: simp_thms)
qed

text \<open>
  C5, as stated, is false. On \<open>ex_sparse\<close> the score of day 7 is 1/2. The trailing seven
  calendar days 1 to 7 hold the daily counts 0, 0, 0, 0, 0, 0 and 1: their median is 0,
  for which the claim gives the score 0; and over the only calendar day of that window
  with a purchase the median is 1, which gives the score 1.
\<close>

theorem score_completeness_baseline_spans_gap:
  "quality_checks exact_ops ex_sparse = Inr (map (q_row exact_ops ex_sparse) [0, 1, 2, 3, 4, 5, 6, 7]) \<and>
   map (\<lambda>r. (q_date r, q_purchase_events r)) (map (q_row exact_ops ex_sparse) [0, 1, 2, 3, 4, 5, 6, 7]) =
     [(0, 3), (1, 0), (2, 0), (3, 0), (4, 0), (5, 0), (6, 0), (7, 1)] \<and>
   q_score_completeness (q_row exact_ops ex_sparse 7) = 1 / 2 \<and>
   calendar_completeness [(0, 3), (1, 0), (2, 0), (3, 0), (4, 0), (5, 0), (6, 0), (7, 1)] 7 = 0 \<and>
   calendar_completeness [(0, 3), (7, 1)] 7 = 1"
proof -
  have "map (\<lambda>r. (q_date r, q_purchase_events r)) (map (q_row exact_ops ex_sparse) [0, 1, 2, 3, 4, 5, 6, 7]) =
     [(0, 3), (1, 0), (2, 0), (3, 0), (4, 0), (5, 0), (6, 0), (7, 1)]"
    by (simp add: q_row_simps ex_sparse_purchase_events column0_def)
  moreover have "score_completeness ex_sparse = [(0, 1), (7, 1 / 2)]"
    by (simp add: score_completeness_def baseline_purchase_def rolling_median_def median_def
        ex_sparse_purchase_events replace0_def clip01_def fillna0_def nan_op_def Let_def)
  then have "q_score_completeness (q_row exact_ops ex_sparse 7) = 1 / 2"
    by (simp add: q_row_simps column0_def)
  moreover have
    "calendar_completeness [(0, 3), (1, 0), (2, 0), (3, 0), (4, 0), (5, 0), (6, 0), (7, 1)] 7 = 0"
    by (simp add: calendar_completeness_def calendar_baseline_def median_def replace0_def
        Let_def)
  moreover have "calendar_completeness [(0, 3), (7, 1)] 7 = 1"
    by (simp add: calendar_completeness_def calendar_baseline_def median_def replace0_def
        column0_def Let_def)
  ultimately show ?thesis using quality_checks_ex_sparse by (simp only: simp_thms)
qed

subsection \<open>Uniqueness\<close>

lemma length_filter_index:
  "length (filter Q xs) = length (filter (\<lambda>i. Q (xs ! i)) [0..<length xs])"
proof -
  have "filter Q xs = filter Q (map (nth xs) [0..<length xs])" by (simp add: map_nth)
  also have "\<dots> = map (nth xs) (filter (\<lambda>i. Q (xs ! i)) [0..<length xs])"
    by (simp add: filter_map comp_def)
  finally show ?thesis by simp
qed

lemma dup_mask_is_duplicate:
  assumes "i < length df"
  shows "dup_mask df (df ! i) = is_duplicate df i"
proof -
  let ?S = "{j. j < length df \<and> dup_key (df ! j) = dup_key (df ! i)}"
  have fin: "finite ?S" by simp
  have mem: "i \<in> ?S" using assms by simp
  have mask: "dup_mask df (df ! i) \<longleftrightarrow> 1 < card ?S"
    by (simp add: dup_mask_def length_filter_conv_card)
  have dup: "is_duplicate df i \<longleftrightarrow> (\<exists>j\<in>?S. j \<noteq> i)"
    by (auto simp: is_duplicate_def)
  have "1 < card ?S \<longleftrightarrow> (\<exists>j\<in>?S. j \<noteq> i)"
  proof
    assume c: "1 < card ?S"
    show "\<exists>j\<in>?S. j \<noteq> i"
    proof (rule ccontr)
      assume "\<not> (\<exists>j\<in>?S. j \<noteq> i)"
      with mem have "?S = {i}" by blast
      then have "card ?S = 1" by simp
      with c show False by simp
    qed
  next
    assume "\<exists>j\<in>?S. j \<noteq> i"
    then obtain j where j: "j \<in> ?S" "j \<noteq> i" by blast
    with mem have "{i, j} \<subseteq> ?S" by blast
    with fin have "card {i, j} \<le> card ?S" by (rule card_mono)
    with j(2) show "1 < card ?S" by simp
  qed
  with mask dup show ?thesis by simp
qed

lemma column0_dup_count: "column0 (dup_count df) d = duplicates_on df d"
proof -
  have "column0 (dup_count df) d = length (filter (\<lambda>e. dup_mask df e \<and> date e = d) df)"
    by (simp add: dup_count_def column0_groupby_size)
  also have "\<dots> = length (filter (\<lambda>i. dup_mask df (df ! i) \<and> date (df ! i) = d) [0..<length df])"
    by (rule length_filter_index)
  also have "filter (\<lambda>i. dup_mask df (df ! i) \<and> date (df ! i) = d) [0..<length df] =
             filter (\<lambda>i. date (df ! i) = d \<and> is_duplicate df i) [0..<length df]"
    by (rule filter_cong) (auto simp: dup_mask_is_duplicate)
  finally show ?thesis by (simp add: duplicates_on_def)
qed

lemma score_uniqueness_indexed:
  "score_uniqueness df =
     map (\<lambda>j. (fst (dup_count df ! j),
               exp (- (real (snd (dup_count df ! j))
                 / (fillna0 (median (map (real \<circ> snd)
                      (drop (Suc j - 7) (take (Suc j) (dup_count df))))) + 1)))))
       [0..<length (dup_count df)]"
  by (rule nth_equalityI)
    (simp_all add: score_uniqueness_def dup_baseline_def rolling_median_def case_prod_unfold)

lemma map_of_score_uniqueness:
  assumes "0 < count_on (filter (dup_mask df) df) d"
  shows "map_of (score_uniqueness df) d =
           Some (exp (- (real (count_on (filter (dup_mask df) df) d)
                   / (fillna0 (recent_median (filter (dup_mask df) df) d) + 1))))"
proof -
  let ?rows = "filter (dup_mask df) df"
  from groupby_size_index_of[OF assms] obtain i
    where i: "i < length (dup_count df)"
      and at: "dup_count df ! i = (d, count_on ?rows d)"
    by (auto simp: dup_count_def)
  have dist: "distinct (map fst (dup_count df))"
    by (simp add: dup_count_def groupby_size_distinct)
  have win: "median (map (real \<circ> snd) (drop (Suc i - 7) (take (Suc i) (dup_count df)))) =
             recent_median ?rows d"
    using rolling_window_recent[of i ?rows] i at by (simp add: dup_count_def)
  define g where "g = (\<lambda>j. exp (- (real (snd (dup_count df ! j))
                 / (fillna0 (median (map (real \<circ> snd)
                      (drop (Suc j - 7) (take (Suc j) (dup_count df))))) + 1))))"
  have "score_uniqueness df =
          map (\<lambda>j. (fst (dup_count df ! j), g j)) [0..<length (dup_count df)]"
    unfolding g_def by (rule score_uniqueness_indexed)
  moreover have "map_of (map (\<lambda>j. (fst (dup_count df ! j), g j))
                   [0..<length (dup_count df)]) (fst (dup_count df ! i)) = Some (g i)"
    using dist i by (rule map_of_indexed)
  moreover have "g i = exp (- (real (count_on ?rows d) / (fillna0 (recent_median ?rows d) + 1)))"
    unfolding g_def by (simp only: at win snd_conv)
  ultimately show ?thesis by (simp only: at fst_conv)
qed

lemma score_uniqueness_absent:
  assumes "count_on (filter (dup_mask df) df) d = 0"
  shows "column0 (score_uniqueness df) d = 0"
proof -
  have "map fst (score_uniqueness df) = map fst (dup_count df)"
    unfolding score_uniqueness_indexed by (rule nth_equalityI) simp_all
  then have "fst ` set (score_uniqueness df) = set (map fst (dup_count df))"
    by (metis set_map)
  also have "\<dots> = date ` set (filter (dup_mask df) df)"
    by (simp add: dup_count_def groupby_size_index)
  finally have "d \<notin> fst ` set (score_uniqueness df)"
    using assms by (auto simp: count_on_def filter_empty_conv)
  then show ?thesis by (rule column0_absent)
qed

text \<open>
  C2, as amended. On every row of the output, \<open>duplicate_events\<close> is the number of records
  of that day for which another record has the same
  \<open>(user_id, event_ts, event_name, amount)\<close> (every occurrence counted). When it is
  positive, \<open>score_uniqueness(d) = exp(-duplicate_events(d) / (dup_baseline(d) + 1))\<close>, where
  \<open>dup_baseline(d)\<close> is the median of the daily duplicate counts over the (up to) seven
  most recent days, ending at \<open>d\<close> inclusive, that have at least one duplicate (however
  many calendar days they span).
\<close>

theorem score_uniqueness_recent_duplicate_days:
  assumes "quality_checks fo df = Inr rows" and "r \<in> set rows"
  shows "q_duplicate_events r = duplicates_on df (q_date r) \<and>
         (0 < q_duplicate_events r \<longrightarrow>
            (\<exists>b. recent_median (filter (dup_mask df) df) (q_date r) = Some b \<and>
                 q_score_uniqueness r = exp (- (real (q_duplicate_events r) / (b + 1)))))"
proof -
  from assms have r: "r = q_row fo df (q_date r)" by (rule quality_checks_row)
  let ?d = "q_date r"
  let ?rows = "filter (dup_mask df) df"
  have de: "q_duplicate_events r = column0 (dup_count df) ?d"
    by (subst r) (simp add: q_row_simps)
  then have cnt: "q_duplicate_events r = count_on ?rows ?d"
    by (simp add: dup_count_def column0_groupby_size count_on_def)
  have su: "q_score_uniqueness r = column0 (score_uniqueness df) ?d"
    by (subst r) (simp add: q_row_simps)
  have pos: "\<exists>b. recent_median ?rows ?d = Some b \<and>
                 q_score_uniqueness r = exp (- (real (q_duplicate_events r) / (b + 1)))"
    if "0 < q_duplicate_events r"
  proof -
    from that cnt have c: "0 < count_on ?rows ?d" by simp
    from recent_median_defined[OF c] obtain b
      where b: "recent_median ?rows ?d = Some b" by blast
    with map_of_score_uniqueness[OF c]
    have "map_of (score_uniqueness df) ?d =
            Some (exp (- (real (count_on ?rows ?d) / (b + 1))))"
      by (simp add: fillna0_def)
    then have "q_score_uniqueness r = exp (- (real (q_duplicate_events r) / (b + 1)))"
      by (simp add: su cnt column0_def)
    with b show ?thesis by blast
  qed
  from de pos show ?thesis by (simp add: column0_dup_count)
qed

lemma ex_dup_duplicates: "filter (dup_mask ex_dup) ex_dup =
     [\<lparr> user_id = 1, event_ts = 0, event_name = ''session_start'', amount = None \<rparr>,
      \<lparr> user_id = 1, event_ts = 0, event_name = ''session_start'', amount = None \<rparr>]"
  by (simp add: ex_dup_def dup_mask_def dup_key_def)

lemma ex_dup_recent_median: "recent_median (filter (dup_mask ex_dup) ex_dup) 0 = Some 2"
  unfolding ex_dup_duplicates
  by (simp add: recent_median_def recent_days_def count_on_def median_def date_def
      ns_per_day_def Let_def)

lemma ex_dup_duplicates_on: "duplicates_on ex_dup 0 = 2"
  by (simp add: duplicates_on_def is_duplicate_def ex_dup_def dup_key_def date_def
      ns_per_day_def upt_rec)

text \<open>The theorem at \<open>ex_dup\<close>: day 0 holds the same record twice, so both count, the
  baseline is 2 and the score is \<open>exp (- 2/3)\<close>.\<close>

theorem score_uniqueness_recent_duplicate_days_witness:
  "quality_checks exact_ops ex_dup = Inr [ex_dup_row0, ex_dup_row1] \<and>
   ex_dup_row0 \<in> set [ex_dup_row0, ex_dup_row1] \<and>
   duplicates_on ex_dup 0 = 2 \<and>
   q_duplicate_events ex_dup_row0 = 2 \<and>
   recent_median (filter (dup_mask ex_dup) ex_dup) 0 = Some 2 \<and>
   q_score_uniqueness ex_dup_row0 = exp (- (2 / (2 + 1)))"
proof -
  have m0: "ex_dup_row0 \<in> set [ex_dup_row0, ex_dup_row1]" by simp
  have d0: "q_date ex_dup_row0 = 0" by (simp add: ex_dup_row0_def)
  note t0 = score_uniqueness_recent_duplicate_days[OF quality_checks_ex_dup m0]
  from t0 have e0: "q_duplicate_events ex_dup_row0 = 2"
    by (simp add: d0 ex_dup_duplicates_on)
  from t0 have "0 < q_duplicate_events ex_dup_row0 \<longrightarrow>
            (\<exists>b. recent_median (filter (dup_mask ex_dup) ex_dup) (q_date ex_dup_row0) = Some b \<and>
                 q_score_uniqueness ex_dup_row0 =
                   exp (- (real (q_duplicate_events ex_dup_row0) / (b + 1))))"
    by blast
  with e0 obtain b
    where "recent_median (filter (dup_mask ex_dup) ex_dup) (q_date ex_dup_row0) = Some b"
      and "q_score_uniqueness ex_dup_row0 =
             exp (- (real (q_duplicate_events ex_dup_row0) / (b + 1)))"
    by auto
  then have s0: "q_score_uniqueness ex_dup_row0 = exp (- (2 / (2 + 1)))"
    by (simp add: d0 e0 ex_dup_recent_median)
  from quality_checks_ex_dup m0 ex_dup_duplicates_on e0 ex_dup_recent_median s0
  show ?thesis by (simp only: simp_thms)
qed

text \<open>
  C2, as stated, is false. On \<open>ex_dups\<close> the daily duplicate counts are 2 on day 0, 4 on
  day 7 and 0 in between, and the score of day 7 is \<open>exp (- 4/4)\<close>: its baseline is the
  median 3 of the counts of the days 0 and 7. Over the trailing seven calendar days 1 to 7
  the median is 0, which gives \<open>exp (- 4)\<close>; over the only day of that window with a
  duplicate it is 4, which gives \<open>exp (- 4/5)\<close>.
\<close>

lemma ex_dups_days: "date ` set ex_dups = {0, 7}"
  by (simp add: ex_dups_def date_def ns_per_day_def)

lemma quality_checks_ex_dups:
  "quality_checks exact_ops ex_dups = Inr (map (q_row exact_ops ex_dups) [0, 1, 2, 3, 4, 5, 6, 7])"
proof -
  have "ex_dups \<noteq> []" by (simp add: ex_dups_def)
  then have "quality_checks exact_ops ex_dups =
      Inr (map (q_row exact_ops ex_dups) [Min (date ` set ex_dups)..Max (date ` set ex_dups)])"
    by (rule quality_checks_nonempty)
  moreover have "[Min (date ` set ex_dups)..Max (date ` set ex_dups)] = [0, 1, 2, 3, 4, 5, 6, 7]"
    by (simp add: ex_dups_days upto.simps)
  ultimately show ?thesis by simp
qed

lemma ex_dups_dup_count: "dup_count ex_dups = [(0, 2), (7, 4)]"
  by (simp add: dup_count_def dup_mask_def dup_key_def groupby_size_def ex_dups_def date_def
      ns_per_day_def)

lemma ex_dups_score_uniqueness: "score_uniqueness ex_dups = [(0, exp (- (2 / 3))), (7, exp (- 1))]"
  by (simp add: score_uniqueness_def dup_baseline_def rolling_median_def median_def
      ex_dups_dup_count fillna0_def Let_def)

theorem score_uniqueness_baseline_spans_gap:
  "quality_checks exact_ops ex_dups = Inr (map (q_row exact_ops ex_dups) [0, 1, 2, 3, 4, 5, 6, 7]) \<and>
   map (\<lambda>r. (q_date r, q_duplicate_events r)) (map (q_row exact_ops ex_dups) [0, 1, 2, 3, 4, 5, 6, 7]) =
     [(0, 2), (1, 0), (2, 0), (3, 0), (4, 0), (5, 0), (6, 0), (7, 4)] \<and>
   q_score_uniqueness (q_row exact_ops ex_dups 7) = exp (- 1) \<and>
   calendar_uniqueness [(0, 2), (1, 0), (2, 0), (3, 0), (4, 0), (5, 0), (6, 0), (7, 4)] 7 =
     exp (- 4) \<and>
   calendar_uniqueness [(0, 2), (7, 4)] 7 = exp (- (4 / 5)) \<and>
   exp (- 1 :: real) \<noteq> exp (- 4) \<and> exp (- 1 :: real) \<noteq> exp (- (4 / 5))"
proof -
  have "map (\<lambda>r. (q_date r, q_duplicate_events r)) (map (q_row exact_ops ex_dups) [0, 1, 2, 3, 4, 5, 6, 7]) =
     [(0, 2), (1, 0), (2, 0), (3, 0), (4, 0), (5, 0), (6, 0), (7, 4)]"
    by (simp add: q_row_simps ex_dups_dup_count column0_def)
  moreover have "q_score_uniqueness (q_row exact_ops ex_dups 7) = exp (- 1)"
    by (simp add: q_row_simps ex_dups_score_uniqueness column0_def)
  moreover have
    "calendar_uniqueness [(0, 2), (1, 0), (2, 0), (3, 0), (4, 0), (5, 0), (6, 0), (7, 4)] 7 =
       exp (- 4)"
    by (simp add: calendar_uniqueness_def median_def fillna0_def column0_def Let_def)
  moreover have "calendar_uniqueness [(0, 2), (7, 4)] 7 = exp (- (4 / 5))"
    by (simp add: calendar_uniqueness_def median_def fillna0_def column0_def Let_def)
  moreover have "exp (- 1 :: real) \<noteq> exp (- 4)" "exp (- 1 :: real) \<noteq> exp (- (4 / 5))"
    by simp_all
  ultimately show ?thesis using quality_checks_ex_dups by (simp only: simp_thms)
qed

text \<open>
  A day without duplicates has no entry in \<open>dup_count\<close>, so the formula is never applied to
  it: its \<open>score_uniqueness\<close> is the fill value 0. On \<open>ex_dup\<close> the day with two duplicates
  scores higher than the day with none.
\<close>

lemma score_uniqueness_without_duplicates:
  assumes "quality_checks fo df = Inr rows" and "r \<in> set rows" and "q_duplicate_events r = 0"
  shows "q_score_uniqueness r = 0"
proof -
  from assms(1,2) have r: "r = q_row fo df (q_date r)" by (rule quality_checks_row)
  have "q_duplicate_events r = column0 (dup_count df) (q_date r)"
    by (subst r) (simp add: q_row_simps)
  with assms(3) have "count_on (filter (dup_mask df) df) (q_date r) = 0"
    by (simp add: dup_count_def column0_groupby_size count_on_def)
  then have "column0 (score_uniqueness df) (q_date r) = 0"
    by (rule score_uniqueness_absent)
  then show ?thesis by (subst r) (simp add: q_row_simps)
qed

lemma ex_dup_score_rises_with_duplicates:
  "quality_checks exact_ops ex_dup = Inr [ex_dup_row0, ex_dup_row1] \<and>
   q_duplicate_events ex_dup_row1 = 0 \<and> q_score_uniqueness ex_dup_row1 = 0 \<and>
   q_duplicate_events ex_dup_row0 = 2 \<and> q_score_uniqueness ex_dup_row0 = exp (- (2 / 3))"
  by (simp add: quality_checks_ex_dup) (simp add: ex_dup_row0_def ex_dup_row1_def)

end
